theory Spec2Isabelle
  imports Complex_Main "HOL-Library.Sublist" "HOL-Library.Word"
begin

section \<open>JavaScript numbers\<close>

text \<open>
  The rating code divides, multiplies and prints JavaScript numbers, which are IEEE 754
  binary64 values. A number is \<open>NaN\<close>, an infinity, the negative zero, or a finite value
  given by the rational it denotes (\<open>Finite 0\<close> is the positive zero). Arithmetic computes
  the exact rational result and rounds it to the nearest binary64 value, ties to even.
\<close>

datatype jsnum = NaN | PosInf | NegInf | NegZero | Finite rat

definition powInt :: "int \<Rightarrow> int \<Rightarrow> rat" where
  "powInt b k = (if 0 \<le> k then of_int b ^ nat k else 1 / of_int b ^ nat (- k))"

definition roundHalfEven :: "rat \<Rightarrow> int" where
  "roundHalfEven q =
     (let f = \<lfloor>q\<rfloor>; r = q - of_int f
      in if r < 1 / 2 then f else if 1 / 2 < r then f + 1 else if even f then f else f + 1)"

text \<open>\<open>floorLog b q\<close> is the integer \<open>e\<close> with \<open>b ^ e \<le> q < b ^ (e + 1)\<close>, for \<open>0 < q\<close>
  and \<open>2 \<le> b\<close>: found by dividing, or multiplying, by \<open>b\<close> until the value is in
  \<open>[1, b)\<close>.\<close>

function logUp :: "int \<Rightarrow> rat \<Rightarrow> int \<Rightarrow> int" where
  "logUp b q k = (if 2 \<le> b \<and> of_int b \<le> q then logUp b (q / of_int b) (k + 1) else k)"
  by pat_completeness auto
termination
proof (relation "measure (\<lambda>(b, q, k). nat \<lceil>q\<rceil>)")
  show "wf (measure (\<lambda>(b, q, k). nat \<lceil>q\<rceil>))" by simp
next
  fix b :: int and q :: rat and k :: int
  assume a: "2 \<le> b \<and> of_int b \<le> q"
  then have b2: "(2::rat) \<le> of_int b" by linarith
  with a have q2: "2 \<le> q" by linarith
  have "q / of_int b \<le> q / 2"
    using b2 q2 by (intro divide_left_mono) auto
  also have "\<dots> \<le> q - 1" using q2 by simp
  finally have "\<lceil>q / of_int b\<rceil> \<le> \<lceil>q - 1\<rceil>" by (rule ceiling_mono)
  also have "\<dots> = \<lceil>q\<rceil> - 1" by simp
  finally have "\<lceil>q / of_int b\<rceil> < \<lceil>q\<rceil>" by simp
  moreover have "0 < \<lceil>q\<rceil>" using q2 by (simp add: less_ceiling_iff)
  ultimately have "nat \<lceil>q / of_int b\<rceil> < nat \<lceil>q\<rceil>" by linarith
  then show "((b, q / of_int b, k + 1), (b, q, k)) \<in> measure (\<lambda>(b, q, k). nat \<lceil>q\<rceil>)"
    by simp
qed

function logDown :: "int \<Rightarrow> rat \<Rightarrow> int \<Rightarrow> int" where
  "logDown b q k = (if 2 \<le> b \<and> 0 < q \<and> q < 1 then logDown b (q * of_int b) (k - 1) else k)"
  by pat_completeness auto
termination
proof (relation "measure (\<lambda>(b, q, k). nat \<lceil>1 / q\<rceil>)")
  show "wf (measure (\<lambda>(b, q, k). nat \<lceil>1 / q\<rceil>))" by simp
next
  fix b :: int and q :: rat and k :: int
  assume a: "2 \<le> b \<and> 0 < q \<and> q < 1"
  then have b2: "(2::rat) \<le> of_int b" by linarith
  define x where "x = 1 / q"
  have x: "1 < x" using a by (simp add: x_def)
  have scaled: "1 / (q * of_int b) = x / of_int b" by (simp add: x_def)
  have "x / of_int b \<le> x / 2"
    using b2 x by (intro divide_left_mono) auto
  then have le: "\<lceil>x / of_int b\<rceil> \<le> \<lceil>x / 2\<rceil>" by (rule ceiling_mono)
  have "\<lceil>x / 2\<rceil> < \<lceil>x\<rceil>"
  proof (cases "2 \<le> x")
    case True
    then have "x / 2 \<le> x - 1" by simp
    then have "\<lceil>x / 2\<rceil> \<le> \<lceil>x - 1\<rceil>" by (rule ceiling_mono)
    also have "\<dots> = \<lceil>x\<rceil> - 1" by simp
    finally show ?thesis by simp
  next
    case False
    then have "x / 2 \<le> 1" by simp
    then have "\<lceil>x / 2\<rceil> \<le> 1" by (simp add: ceiling_le_iff)
    moreover from x have "1 < \<lceil>x\<rceil>" by (simp add: less_ceiling_iff)
    ultimately show ?thesis by linarith
  qed
  moreover from x have "0 < \<lceil>x\<rceil>" by (simp add: less_ceiling_iff)
  ultimately have "nat \<lceil>x / of_int b\<rceil> < nat \<lceil>x\<rceil>"
    using le by linarith
  then have "nat \<lceil>1 / (q * of_int b)\<rceil> < nat \<lceil>1 / q\<rceil>"
    by (simp only: scaled x_def [symmetric])
  then show "((b, q * of_int b, k - 1), (b, q, k)) \<in> measure (\<lambda>(b, q, k). nat \<lceil>1 / q\<rceil>)"
    by simp
qed

declare logUp.simps [simp del] logDown.simps [simp del]

definition floorLog :: "int \<Rightarrow> rat \<Rightarrow> int" where
  "floorLog b q = (if 1 \<le> q then logUp b q 0 else logDown b q 0)"

definition signedInf :: "bool \<Rightarrow> jsnum" where
  "signedInf neg = (if neg then NegInf else PosInf)"

definition signedZero :: "bool \<Rightarrow> jsnum" where
  "signedZero neg = (if neg then NegZero else Finite 0)"

text \<open>
  Rounding of the exact magnitude \<open>a\<close> with the sign \<open>neg\<close> to binary64. The unit of the
  last place is \<open>2 ^ sh\<close>: 52 binary places below the leading bit, and never below the
  subnormal unit \<open>2 ^ - 1074\<close>. A result that rounds to \<open>2 ^ 1024\<close> or more is an
  infinity; one that rounds to nothing is a zero.
\<close>

definition roundMagnitude :: "bool \<Rightarrow> rat \<Rightarrow> jsnum" where
  "roundMagnitude neg a =
     (if a \<le> 0 then signedZero neg
      else let sh = max (floorLog 2 a) (- 1022) - 52;
               m = roundHalfEven (a * powInt 2 (- sh));
               v = of_int m * powInt 2 sh
           in if m = 0 then signedZero neg
              else if powInt 2 1024 \<le> v then signedInf neg
              else Finite (if neg then - v else v))"

definition isNeg :: "jsnum \<Rightarrow> bool" where
  "isNeg x = (case x of NegInf \<Rightarrow> True | NegZero \<Rightarrow> True | Finite q \<Rightarrow> q < 0 | _ \<Rightarrow> False)"

definition isInf :: "jsnum \<Rightarrow> bool" where
  "isInf x = (x = PosInf \<or> x = NegInf)"

definition isZero :: "jsnum \<Rightarrow> bool" where
  "isZero x = (x = NegZero \<or> x = Finite 0)"

definition magnitude :: "jsnum \<Rightarrow> rat" where
  "magnitude x = (case x of Finite q \<Rightarrow> \<bar>q\<bar> | _ \<Rightarrow> 0)"

text \<open>\<^verbatim>\<open>a / b\<close> (Number::divide): a NaN operand, infinity by infinity and zero by zero give
  NaN; a non-zero value by a zero gives an infinity; the sign is the exclusive or of the
  signs.\<close>

definition numberDivide :: "jsnum \<Rightarrow> jsnum \<Rightarrow> jsnum" where
  "numberDivide a b =
     (if a = NaN \<or> b = NaN then NaN
      else if isInf a then (if isInf b then NaN else signedInf (isNeg a \<noteq> isNeg b))
      else if isInf b then signedZero (isNeg a \<noteq> isNeg b)
      else if isZero b then (if isZero a then NaN else signedInf (isNeg a \<noteq> isNeg b))
      else if isZero a then signedZero (isNeg a \<noteq> isNeg b)
      else roundMagnitude (isNeg a \<noteq> isNeg b) (magnitude a / magnitude b))"

text \<open>\<^verbatim>\<open>a * b\<close> (Number::multiply).\<close>

definition numberMultiply :: "jsnum \<Rightarrow> jsnum \<Rightarrow> jsnum" where
  "numberMultiply a b =
     (if a = NaN \<or> b = NaN then NaN
      else if isInf a \<or> isInf b
           then (if isZero a \<or> isZero b then NaN else signedInf (isNeg a \<noteq> isNeg b))
      else if isZero a \<or> isZero b then signedZero (isNeg a \<noteq> isNeg b)
      else roundMagnitude (isNeg a \<noteq> isNeg b) (magnitude a * magnitude b))"

text \<open>\<^verbatim>\<open>a < b\<close> on numbers: false when an operand is NaN; the two zeros are equal.\<close>

definition orderKey :: "jsnum \<Rightarrow> int \<times> rat" where
  "orderKey x = (case x of NegInf \<Rightarrow> (- 1, 0) | PosInf \<Rightarrow> (1, 0) | Finite q \<Rightarrow> (0, q) | _ \<Rightarrow> (0, 0))"

definition numberLess :: "jsnum \<Rightarrow> jsnum \<Rightarrow> bool" where
  "numberLess a b =
     (a \<noteq> NaN \<and> b \<noteq> NaN
      \<and> (fst (orderKey a) < fst (orderKey b)
         \<or> (fst (orderKey a) = fst (orderKey b) \<and> snd (orderKey a) < snd (orderKey b))))"

subsection \<open>Numbers to strings\<close>

definition digitChar :: "nat \<Rightarrow> char" where
  "digitChar d = ''0123456789'' ! d"

fun natToString :: "nat \<Rightarrow> string" where
  "natToString n = (if n < 10 then [digitChar n] else natToString (n div 10) @ [digitChar (n mod 10)])"

declare natToString.simps [simp del]

text \<open>
  Number::toString for a finite \<open>q > 0\<close>: the digits \<open>s\<close>, their number \<open>k\<close> and the exponent
  \<open>n\<close> with \<open>10 ^ (k - 1) \<le> s < 10 ^ k\<close> such that \<open>s * 10 ^ (n - k)\<close> rounds to \<open>q\<close>, with
  \<open>k\<close> as small as possible and, among those, \<open>s * 10 ^ (n - k)\<close> closest to \<open>q\<close>. For a given
  \<open>k\<close> only the two multiples of \<open>10 ^ (n - k)\<close> around \<open>q\<close> can qualify. Seventeen digits
  identify every binary64 value, so the search ends before its bound; the first equation is
  for values that are not binary64.
\<close>

fun shortestDigits :: "nat \<Rightarrow> nat \<Rightarrow> rat \<Rightarrow> int \<Rightarrow> nat \<times> nat" where
  "shortestDigits 0 k q n = (nat \<lfloor>q / powInt 10 (n - int k) + 1 / 2\<rfloor>, k)"
| "shortestDigits (Suc fuel) k q n =
     (let scale = powInt 10 (n - int k);
          lo = \<lfloor>q / scale\<rfloor>;
          hi = lo + 1;
          okLo = (roundMagnitude False (of_int lo * scale) = Finite q);
          okHi = (roundMagnitude False (of_int hi * scale) = Finite q)
      in if okLo \<and> okHi
         then (let dLo = q - of_int lo * scale; dHi = of_int hi * scale - q
               in if dLo < dHi \<or> (dLo = dHi \<and> even lo) then (nat lo, k) else (nat hi, k))
         else if okLo then (nat lo, k)
         else if okHi then (nat hi, k)
         else shortestDigits fuel (Suc k) q n)"

definition positiveToString :: "rat \<Rightarrow> string" where
  "positiveToString q =
     (let n0 = floorLog 10 q + 1;
          sk = shortestDigits 17 1 q n0;
          k = snd sk;
          carried = (fst sk = 10 ^ k);
          s = (if carried then fst sk div 10 else fst sk);
          n = (if carried then n0 + 1 else n0);
          ds = natToString s
      in if int k \<le> n \<and> n \<le> 21 then ds @ replicate (nat (n - int k)) CHR ''0''
         else if 0 < n \<and> n \<le> 21 then take (nat n) ds @ ''.'' @ drop (nat n) ds
         else if - 6 < n \<and> n \<le> 0 then ''0.'' @ replicate (nat (- n)) CHR ''0'' @ ds
         else (let e = n - 1;
                   es = (if e < 0 then ''-'' else ''+'') @ natToString (nat \<bar>e\<bar>)
               in if k = 1 then ds @ ''e'' @ es
                  else take 1 ds @ ''.'' @ drop 1 ds @ ''e'' @ es))"

text \<open>\<^verbatim>\<open>`${x}`\<close> for a number \<open>x\<close> (Number::toString, radix 10).\<close>

definition numberToString :: "jsnum \<Rightarrow> string" where
  "numberToString x =
     (case x of
        NaN \<Rightarrow> ''NaN''
      | PosInf \<Rightarrow> ''Infinity''
      | NegInf \<Rightarrow> ''-Infinity''
      | NegZero \<Rightarrow> ''0''
      | Finite q \<Rightarrow> (if q = 0 then ''0''
                     else if q < 0 then ''-'' @ positiveToString (- q)
                     else positiveToString q))"

text \<open>
  \<^verbatim>\<open>x.toFixed(f)\<close> (Number.prototype.toFixed) for \<open>f \<le> 100\<close>: a value that is not finite
  prints as by toString; otherwise the sign, and the integer \<open>n\<close> for which \<open>n / 10 ^ f\<close> is
  closest to the magnitude (the larger one of two), printed with \<open>f\<close> digits after the
  point.
\<close>

definition toFixed :: "nat \<Rightarrow> jsnum \<Rightarrow> string" where
  "toFixed f x =
     (case x of
        NaN \<Rightarrow> ''NaN''
      | PosInf \<Rightarrow> ''Infinity''
      | NegInf \<Rightarrow> ''-Infinity''
      | _ \<Rightarrow>
        (let q = (case x of Finite r \<Rightarrow> r | _ \<Rightarrow> 0);
             s = (if q < 0 then ''-'' else []);
             a = \<bar>q\<bar>
         in if 10 ^ 21 \<le> a then s @ positiveToString a
            else (let n = nat \<lfloor>a * 10 ^ f + 1 / 2\<rfloor>;
                      m0 = natToString n;
                      m = (if f \<noteq> 0 \<and> length m0 \<le> f
                           then replicate (f + 1 - length m0) CHR ''0'' @ m0 else m0);
                      k = length m
                  in if f \<noteq> 0 then s @ take (k - f) m @ ''.'' @ drop (k - f) m
                     else s @ m)))"

text \<open>\<^verbatim>\<open>x.toLocaleString()\<close> prints in the locale of the host, which the program does not
  fix. The value of a field printed that way is kept as the number it prints.\<close>

datatype localeString = ToLocaleString jsnum

subsection \<open>Strings to numbers\<close>

text \<open>
  \<^verbatim>\<open>Number(s)\<close> for a string (StringToNumber). A \<open>char\<close> stands for a code unit below 256;
  the white space and line terminators among them are the seven below.
\<close>

definition isStrWhiteSpaceChar :: "char \<Rightarrow> bool" where
  "isStrWhiteSpaceChar c =
     (c \<in> set [CHR 0x09, CHR 0x0A, CHR 0x0B, CHR 0x0C, CHR 0x0D, CHR 0x20, CHR 0xA0])"

text \<open>\<^verbatim>\<open>s.trim()\<close>.\<close>

definition trimString :: "string \<Rightarrow> string" where
  "trimString s = rev (dropWhile isStrWhiteSpaceChar (rev (dropWhile isStrWhiteSpaceChar s)))"

definition digitValue :: "char \<Rightarrow> nat option" where
  "digitValue c =
     (let n = (of_char c :: nat)
      in if 48 \<le> n \<and> n \<le> 57 then Some (n - 48)
         else if 97 \<le> n \<and> n \<le> 102 then Some (n - 87)
         else if 65 \<le> n \<and> n \<le> 70 then Some (n - 55)
         else None)"

definition isDigitOf :: "nat \<Rightarrow> char \<Rightarrow> bool" where
  "isDigitOf base c = (case digitValue c of None \<Rightarrow> False | Some d \<Rightarrow> d < base)"

fun digitsValue :: "nat \<Rightarrow> nat \<Rightarrow> string \<Rightarrow> nat" where
  "digitsValue base acc [] = acc"
| "digitsValue base acc (c # cs) =
     digitsValue base (base * acc + (case digitValue c of None \<Rightarrow> 0 | Some d \<Rightarrow> d)) cs"

text \<open>ExponentPart, or nothing: \<^verbatim>\<open>e\<close> or \<^verbatim>\<open>E\<close>, a sign if any, and digits.\<close>

definition exponentPart :: "string \<Rightarrow> int option" where
  "exponentPart s =
     (case s of
        [] \<Rightarrow> Some 0
      | c # r \<Rightarrow>
          if c = CHR ''e'' \<or> c = CHR ''E''
          then (let neg = (case r of d # _ \<Rightarrow> d = CHR ''-'' | [] \<Rightarrow> False);
                    ds = (case r of d # r' \<Rightarrow> if d = CHR ''+'' \<or> d = CHR ''-'' then r' else r
                          | [] \<Rightarrow> r)
                in if ds \<noteq> [] \<and> list_all (isDigitOf 10) ds
                   then Some (if neg then - int (digitsValue 10 0 ds) else int (digitsValue 10 0 ds))
                   else None)
          else None)"

text \<open>StrUnsignedDecimalLiteral other than \<^verbatim>\<open>Infinity\<close>: digits with a point and an exponent
  part if any, with a digit before or after the point. The result is the exact value.\<close>

definition unsignedDecimalLiteral :: "string \<Rightarrow> rat option" where
  "unsignedDecimalLiteral s =
     (let ip = takeWhile (isDigitOf 10) s;
          r1 = dropWhile (isDigitOf 10) s;
          dot = (case r1 of c # _ \<Rightarrow> c = CHR ''.'' | [] \<Rightarrow> False);
          fp = (if dot then takeWhile (isDigitOf 10) (tl r1) else []);
          r2 = (if dot then dropWhile (isDigitOf 10) (tl r1) else r1)
      in if ip = [] \<and> fp = [] then None
         else (case exponentPart r2 of
                 None \<Rightarrow> None
               | Some e \<Rightarrow>
                   Some ((of_nat (digitsValue 10 0 ip)
                            + of_nat (digitsValue 10 0 fp) / 10 ^ length fp) * powInt 10 e)))"

text \<open>NonDecimalIntegerLiteral: \<^verbatim>\<open>0x\<close>, \<^verbatim>\<open>0o\<close> or \<^verbatim>\<open>0b\<close> and digits of that base.\<close>

definition nonDecimalIntegerLiteral :: "string \<Rightarrow> nat option" where
  "nonDecimalIntegerLiteral s =
     (case s of
        z # x # ds \<Rightarrow>
          (let base = (if x = CHR ''x'' \<or> x = CHR ''X'' then 16
                       else if x = CHR ''o'' \<or> x = CHR ''O'' then 8
                       else if x = CHR ''b'' \<or> x = CHR ''B'' then 2 else 0)
           in if z = CHR ''0'' \<and> base \<noteq> 0 \<and> ds \<noteq> [] \<and> list_all (isDigitOf base) ds
              then Some (digitsValue base 0 ds) else None)
      | _ \<Rightarrow> None)"

definition StringToNumber :: "string \<Rightarrow> jsnum" where
  "StringToNumber str =
     (let t = trimString str
      in if t = [] then Finite 0
         else (case nonDecimalIntegerLiteral t of
                 Some v \<Rightarrow> roundMagnitude False (of_nat v)
               | None \<Rightarrow>
                  (let neg = (hd t = CHR ''-'');
                       body = (if hd t = CHR ''+'' \<or> hd t = CHR ''-'' then tl t else t)
                   in if body = ''Infinity'' then signedInf neg
                      else (case unsignedDecimalLiteral body of
                              None \<Rightarrow> NaN
                            | Some q \<Rightarrow> roundMagnitude neg q))))"

text \<open>\<^verbatim>\<open>s.split(sep)\<close> for a separator of one character.\<close>

fun splitOn :: "char \<Rightarrow> string \<Rightarrow> string list" where
  "splitOn sep [] = [[]]"
| "splitOn sep (c # cs) =
     (if c = sep then [] # splitOn sep cs
      else (case splitOn sep cs of w # ws \<Rightarrow> (c # w) # ws | [] \<Rightarrow> [[c]]))"

text \<open>\<^verbatim>\<open>xs[i]\<close>: \<^verbatim>\<open>undefined\<close> (here \<open>None\<close>) beyond the end.\<close>

definition elementAt :: "'a list \<Rightarrow> nat \<Rightarrow> 'a option" where
  "elementAt xs i = (if i < length xs then Some (xs ! i) else None)"

section \<open>JavaScript values\<close>

text \<open>The values an argument of plain data can be: the primitive values. \<^verbatim>\<open>page\<close> and
  \<^verbatim>\<open>url\<close> are declared as a number and a string; a caller in JavaScript can pass any of
  these.\<close>

datatype jsval = JUndefined | JNull | JBoolean bool | JNumber jsnum | JString string

definition typeof :: "jsval \<Rightarrow> string" where
  "typeof v =
     (case v of
        JUndefined \<Rightarrow> ''undefined''
      | JNull \<Rightarrow> ''object''
      | JBoolean _ \<Rightarrow> ''boolean''
      | JNumber _ \<Rightarrow> ''number''
      | JString _ \<Rightarrow> ''string'')"

text \<open>\<^verbatim>\<open>v == null\<close>.\<close>

definition isNullish :: "jsval \<Rightarrow> bool" where
  "isNullish v = (v = JUndefined \<or> v = JNull)"

text \<open>ToNumber and ToString of a primitive value.\<close>

definition toNumber :: "jsval \<Rightarrow> jsnum" where
  "toNumber v =
     (case v of
        JUndefined \<Rightarrow> NaN
      | JNull \<Rightarrow> Finite 0
      | JBoolean b \<Rightarrow> (if b then Finite 1 else Finite 0)
      | JNumber n \<Rightarrow> n
      | JString s \<Rightarrow> StringToNumber s)"

definition toStringValue :: "jsval \<Rightarrow> string" where
  "toStringValue v =
     (case v of
        JUndefined \<Rightarrow> ''undefined''
      | JNull \<Rightarrow> ''null''
      | JBoolean b \<Rightarrow> (if b then ''true'' else ''false'')
      | JNumber n \<Rightarrow> numberToString n
      | JString s \<Rightarrow> s)"

text \<open>\<^verbatim>\<open>Number(x)\<close> for an element of a string array: \<^verbatim>\<open>undefined\<close> beyond the end.\<close>

definition NumberOf :: "string option \<Rightarrow> jsnum" where
  "NumberOf x = (case x of None \<Rightarrow> NaN | Some s \<Rightarrow> StringToNumber s)"

section \<open>MangaPark.search: the run-grouping passes\<close>

text \<open>
  mangapark.ts is the first file of \<^verbatim>\<open>src/unnamed/part_000\<close>; line numbers are those of that
  file. \<^verbatim>\<open>let memo: string[] = [];\<close> (line 82) is one buffer of the module. It is
  created when the module is loaded and is shared by the authors pass, the genres pass and
  every later call of \<^verbatim>\<open>search\<close>. A pass is therefore a function of the buffer it finds and
  returns the buffer it leaves.

  Both passes are callbacks of cheerio's \<^verbatim>\<open>.map(...).get()\<close>: a callback that returns
  \<^verbatim>\<open>undefined\<close> adds nothing to the result, one that returns \<^verbatim>\<open>[prevMemo]\<close> adds the
  array \<^verbatim>\<open>prevMemo\<close> as one element. The list a pass walks is the selection cheerio hands
  to \<^verbatim>\<open>map\<close>, in the order of iteration.
\<close>

type_synonym memo = "string list"

text \<open>\<^verbatim>\<open>text.match('Authors/Artists:')\<close>: the pattern has no special character, so the
  match succeeds exactly when the text contains it.\<close>

definition isAuthorsMarker :: "string \<Rightarrow> bool" where
  "isAuthorsMarker t = sublist ''Authors/Artists:'' t"

text \<open>Lines 201 to 212: the walk over
  \<^verbatim>\<open>$('div:contains("Authors/Artists") > b.pd').prevAll()\<close>, given as the texts of the
  elements.\<close>

fun authorsPass :: "memo \<Rightarrow> string list \<Rightarrow> string list list \<times> memo" where
  "authorsPass memo [] = ([], memo)"
| "authorsPass memo (t # els) =
     (if \<not> isAuthorsMarker t then authorsPass (memo @ [t]) els
      else (let prevMemo = memo; rest = authorsPass [] els
            in (prevMemo # fst rest, snd rest)))"

text \<open>An element of \<^verbatim>\<open>$('div.field.last > a')\<close>: its text, and whether
  \<^verbatim>\<open>anchorEl.next().is('a')\<close>.\<close>

record anchorEl =
  anchorText :: string
  nextIsAnchor :: bool

text \<open>Lines 214 to 225. The anchor with no anchor after it closes the group; its own text
  is not collected.\<close>

fun genresPass :: "memo \<Rightarrow> anchorEl list \<Rightarrow> string list list \<times> memo" where
  "genresPass memo [] = ([], memo)"
| "genresPass memo (a # els) =
     (if nextIsAnchor a then genresPass (memo @ [anchorText a]) els
      else (let prevMemo = memo; rest = genresPass [] els
            in (prevMemo # fst rest, snd rest)))"

text \<open>
  The grouping as the specification words it (section 4.3, and
  \<^verbatim>\<open>groupBySiblingMarker(containerSelector, isMarker)\<close> of section 6): walk the siblings in
  order; the texts of the non-markers up to the next marker form one group; what follows the
  last marker forms no group. This definition follows the specification, not the source, and
  is what the two passes are compared with.
\<close>

function groupBySiblingMarker :: "('a \<Rightarrow> bool) \<Rightarrow> ('a \<Rightarrow> string) \<Rightarrow> 'a list \<Rightarrow> string list list" where
  "groupBySiblingMarker isMarker textOf els =
     (if list_ex isMarker els
      then map textOf (takeWhile (\<lambda>e. \<not> isMarker e) els)
           # groupBySiblingMarker isMarker textOf (tl (dropWhile (\<lambda>e. \<not> isMarker e) els))
      else [])"
  by pat_completeness auto
termination
proof (relation "measure (\<lambda>(isMarker, textOf, els). length els)")
  show "wf (measure (\<lambda>(isMarker, textOf, els). length els))"
    by simp
next
  fix isMarker :: "'a \<Rightarrow> bool" and textOf :: "'a \<Rightarrow> string" and els :: "'a list"
  assume "list_ex isMarker els"
  then have "dropWhile (\<lambda>e. \<not> isMarker e) els \<noteq> []"
    by (auto simp: list_ex_iff)
  then have "length (tl (dropWhile (\<lambda>e. \<not> isMarker e) els)) < length (dropWhile (\<lambda>e. \<not> isMarker e) els)"
    by (cases "dropWhile (\<lambda>e. \<not> isMarker e) els") auto
  also have "\<dots> \<le> length els"
    by (rule length_dropWhile_le)
  finally show "((isMarker, textOf, tl (dropWhile (\<lambda>e. \<not> isMarker e) els)), (isMarker, textOf, els))
      \<in> measure (\<lambda>(isMarker, textOf, els). length els)"
    by simp
qed

declare groupBySiblingMarker.simps [simp del]

section \<open>MangaPark.search: the rating and the records\<close>

record mangaRating =
  sourceRating :: string
  voteCount :: localeString
  ratingPercentage :: string
  ratingStars :: string

text \<open>Lines 230 to 238 of mangapark.ts, and again lines 311 to 319: the numerator, the
  denominator and the vote count are the tokens at the indexes 1, 3 and 6.\<close>

definition ratingOfTokens :: "string list \<Rightarrow> mangaRating" where
  "ratingOfTokens ratingText =
     (let numerator = NumberOf (elementAt ratingText 1);
          denominator = NumberOf (elementAt ratingText 3);
          voteCount = ToLocaleString (NumberOf (elementAt ratingText 6))
      in \<lparr>sourceRating = ''MangaPark.net'',
          voteCount = voteCount,
          ratingPercentage =
            toFixed 2 (numberMultiply (numberDivide numerator denominator) (Finite 100)) @ ''%'',
          ratingStars = numberToString numerator @ '' / '' @ numberToString denominator\<rparr>)"

text \<open>Line 229: \<^verbatim>\<open>divEl.attr('title')?.split(' ') || []\<close>, for the \<^verbatim>\<open>title\<close> attribute of a
  \<^verbatim>\<open>div.rate\<close> (\<open>None\<close> when the element has none).\<close>

definition searchRating :: "string option \<Rightarrow> mangaRating" where
  "searchRating titleAttribute =
     ratingOfTokens (case titleAttribute of None \<Rightarrow> [] | Some t \<Rightarrow> splitOn CHR '' '' t)"

text \<open>Line 310 (getMangaMeta): the text of the rating cell, \<^verbatim>\<open>.trim().split(' ')\<close>.\<close>

definition metaRating :: "string \<Rightarrow> mangaRating" where
  "metaRating cellText = ratingOfTokens (splitOn CHR '' '' (trimString cellText))"

text \<open>
  The parsed document as \<^verbatim>\<open>search\<close> reads it: for each of its five selections the
  elements in the order cheerio iterates them, each given by what the callback reads of it
  (an attribute is \<open>None\<close> where \<^verbatim>\<open>attr\<close> returns \<^verbatim>\<open>undefined\<close>).
\<close>

record anchorAttrs =
  hrefAttr :: "string option"
  titleAttr :: "string option"

record searchDocument =
  titleAnchors :: "anchorAttrs list"
  authorSiblings :: "string list"
  genreAnchors :: "anchorEl list"
  rateTitles :: "string option list"
  coverSrcs :: "string option list"

text \<open>A record of the result. \<^verbatim>\<open>authors[i]\<close>, \<^verbatim>\<open>coverImage[i]\<close>, \<^verbatim>\<open>mangaGenres[i]\<close> and
  \<^verbatim>\<open>mangaRating[i]\<close> are \<^verbatim>\<open>undefined\<close> (here \<open>None\<close>) beyond the end of their arrays.\<close>

record mangaParkManga =
  title :: string
  url :: string
  authors :: "string list option"
  coverImage :: "string option"
  genres :: "string list option"
  rating :: "mangaRating option"

text \<open>Lines 189 to 199: \<^verbatim>\<open>`https://v2.mangapark.net${anchorEl.attr('href')}` || ''\<close> and
  \<^verbatim>\<open>anchorEl.attr('title') || ''\<close>.\<close>

definition titleURL :: "anchorAttrs \<Rightarrow> string \<times> string" where
  "titleURL a =
     (''https://v2.mangapark.net'' @ (case hrefAttr a of None \<Rightarrow> ''undefined'' | Some h \<Rightarrow> h),
      (case titleAttr a of None \<Rightarrow> [] | Some t \<Rightarrow> t))"

text \<open>Lines 189 to 252: the extraction, from the buffer \<open>memo\<close> as it stands when the
  document arrives to the records and the buffer as the call leaves it.\<close>

definition searchExtract :: "memo \<Rightarrow> searchDocument \<Rightarrow> mangaParkManga list \<times> memo" where
  "searchExtract memo doc =
     (let titleURLs = map titleURL (titleAnchors doc);
          authorsRun = authorsPass memo (authorSiblings doc);
          genresRun = genresPass (snd authorsRun) (genreAnchors doc);
          mangaRating = map searchRating (rateTitles doc);
          coverImage = map (\<lambda>src. case src of None \<Rightarrow> [] | Some s \<Rightarrow> s) (coverSrcs doc);
          data = map (\<lambda>(i, (mangaUrl, t)).
                        \<lparr>title = t,
                         url = mangaUrl,
                         authors = elementAt (fst authorsRun) i,
                         coverImage = elementAt coverImage i,
                         genres = elementAt (fst genresRun) i,
                         rating = elementAt mangaRating i\<rparr>)
                     (enumerate 0 titleURLs)
      in (data, snd genresRun))"

section \<open>automateBrowser\<close>

text \<open>
  Values that are thrown. \<open>External\<close> is an error raised by a collaborator (puppeteer,
  the page script, \<^verbatim>\<open>readHtml\<close>), named by its message; \<open>TypeError\<close> and \<open>URIError\<close> are raised
  by the JavaScript runtime; \<open>ErrorOf e\<close> is \<^verbatim>\<open>Error(e)\<close>, the new error that line 38 of
  automateBrowser.ts throws for a caught \<open>e\<close>.
\<close>

datatype error = External string | TypeError string | URIError string | ErrorOf error

text \<open>How an awaited call of puppeteer ends.\<close>

datatype step = Done | Throws error

text \<open>\<^verbatim>\<open>(await browser.pages())[0]\<close>: the call may throw, and the array may be empty, in
  which case \<^verbatim>\<open>page\<close> is \<^verbatim>\<open>undefined\<close> and the call of \<^verbatim>\<open>page.setViewport\<close> raises a
  TypeError.\<close>

datatype pagesResult = PagesThrow error | NoPage | FirstPage

text \<open>What \<^verbatim>\<open>callback(page)\<close> does: it returns a promise that resolves or rejects, or (a
  callback that is not an \<^verbatim>\<open>async\<close> function) throws before it returns one.\<close>

datatype 'a scriptResult = Resolves 'a | Rejects error | ThrowsSync error

record 'a browserEnv =
  launch :: step
  pages :: pagesResult
  setViewport :: step
  evaluateOnNewDocument :: step
  pageScript :: "'a scriptResult"
  close :: step

text \<open>\<^verbatim>\<open>ScrapingOptions\<close>, as far as automateBrowser reads it. The argument list of the
  launch (lines 11 to 29) is data handed to puppeteer and is not modelled; \<open>debug\<close>
  decides \<^verbatim>\<open>headless\<close>.\<close>

record scrapingOptions =
  proxy :: "(string \<times> nat) option"
  debug :: "bool option"

datatype event =
    Launch bool
  | Pages
  | SetViewport nat nat
  | EvaluateOnNewDocument
  | PageScript
  | Close

text \<open>A request of the page and what becomes of it.\<close>

record request =
  requestUrl :: string
  resourceType :: string

datatype decision = Allow | Deny

text \<open>The state of the page that the page script receives. In puppeteer a page intercepts
  no request unless \<^verbatim>\<open>page.setRequestInterception(true)\<close> was called and a handler of the
  \<^verbatim>\<open>'request'\<close> event decides; \<open>requestGate\<close> is that handler, if one was installed.\<close>

record page =
  viewport :: "(nat \<times> nat) option"
  preloaded :: bool
  requestGate :: "(request \<Rightarrow> decision) option"

definition newPage :: page where
  "newPage = \<lparr>viewport = None, preloaded = False, requestGate = None\<rparr>"

definition requestOutcome :: "page \<Rightarrow> request \<Rightarrow> decision" where
  "requestOutcome p r = (case requestGate p of None \<Rightarrow> Allow | Some gate \<Rightarrow> gate r)"

text \<open>What one call of automateBrowser did: the calls it made to puppeteer and to the page
  script, in order, all of them before its promise settles; the page as the script received
  it, if the script was called; and how the promise settles.\<close>

record 'a automation =
  trace :: "event list"
  scriptPage :: "page option"
  settles :: "error + 'a"

text \<open>automateBrowser.ts, lines 8 to 40. In
  \<^verbatim>\<open>callback(page).finally(async () => await browser.close())\<close> the handler runs when the
  promise of the callback settles, and the chained promise takes the settlement of the
  callback unless \<^verbatim>\<open>browser.close()\<close> throws, whose error it takes then. Every error goes
  through \<^verbatim>\<open>catch (e) { throw Error(e); }\<close>.\<close>

definition automateBrowser :: "scrapingOptions \<Rightarrow> 'a browserEnv \<Rightarrow> 'a automation" where
  "automateBrowser options env =
     (let headless = \<not> (case debug options of None \<Rightarrow> False | Some d \<Rightarrow> d);
          t1 = [Launch headless]
      in case launch env of
           Throws e \<Rightarrow> \<lparr>trace = t1, scriptPage = None, settles = Inl (ErrorOf e)\<rparr>
         | Done \<Rightarrow>
        (let t2 = t1 @ [Pages]
         in case pages env of
              PagesThrow e \<Rightarrow> \<lparr>trace = t2, scriptPage = None, settles = Inl (ErrorOf e)\<rparr>
            | NoPage \<Rightarrow> \<lparr>trace = t2, scriptPage = None,
                 settles = Inl (ErrorOf (TypeError ''Cannot read properties of undefined''))\<rparr>
            | FirstPage \<Rightarrow>
           (let t3 = t2 @ [SetViewport 1920 1080]
            in case setViewport env of
                 Throws e \<Rightarrow> \<lparr>trace = t3, scriptPage = None, settles = Inl (ErrorOf e)\<rparr>
               | Done \<Rightarrow>
              (let p3 = newPage\<lparr>viewport := Some (1920, 1080)\<rparr>;
                   t4 = t3 @ [EvaluateOnNewDocument]
               in case evaluateOnNewDocument env of
                    Throws e \<Rightarrow> \<lparr>trace = t4, scriptPage = None, settles = Inl (ErrorOf e)\<rparr>
                  | Done \<Rightarrow>
                 (let p4 = p3\<lparr>preloaded := True\<rparr>;
                      t5 = t4 @ [PageScript]
                  in case pageScript env of
                       ThrowsSync e \<Rightarrow>
                         \<lparr>trace = t5, scriptPage = Some p4, settles = Inl (ErrorOf e)\<rparr>
                     | Resolves v \<Rightarrow>
                         (case close env of
                            Done \<Rightarrow> \<lparr>trace = t5 @ [Close], scriptPage = Some p4, settles = Inr v\<rparr>
                          | Throws e2 \<Rightarrow>
                              \<lparr>trace = t5 @ [Close], scriptPage = Some p4, settles = Inl (ErrorOf e2)\<rparr>)
                     | Rejects e \<Rightarrow>
                         (case close env of
                            Done \<Rightarrow>
                              \<lparr>trace = t5 @ [Close], scriptPage = Some p4, settles = Inl (ErrorOf e)\<rparr>
                          | Throws e2 \<Rightarrow>
                              \<lparr>trace = t5 @ [Close], scriptPage = Some p4, settles = Inl (ErrorOf e2)\<rparr>))))))"

text \<open>The interception policy that the callers pass (mangapark.ts, lines 291 and 563 to 566;
  section 6 of the specification gives its shape).\<close>

datatype policyMethod = block | unblock

record policy =
  domains :: "(policyMethod \<times> string list) option"
  resource :: "(policyMethod \<times> string list) option"

text \<open>\<^verbatim>\<open>automateBrowser(this.options, callback, policy)\<close> as getMangaMeta and getPages call
  it. The function declares two parameters (line 8) and reads no \<^verbatim>\<open>arguments\<close>, so
  JavaScript drops the third argument.\<close>

definition automateBrowserWithPolicy :: "scrapingOptions \<Rightarrow> 'a browserEnv \<Rightarrow> policy \<Rightarrow> 'a automation" where
  "automateBrowserWithPolicy options env network = automateBrowser options env"

text \<open>The policies of the two call sites.\<close>

definition BLOCKED_REQUESTS :: "string list" where
  "BLOCKED_REQUESTS =
    [''https://v2.mangapark.net/cdn-cgi/scripts/5c5dd728/cloudflare-static/email-decode.min.js'',
     ''https://cdnjs.cloudflare.com/ajax/libs/jqueryui/'',
     ''https://cdnjs.cloudflare.com/ajax/libs/jquery_lazyload/'',
     ''https://cdnjs.cloudflare.com/ajax/libs/axios/'',
     ''https://static.mangapark.net/v2/js/global.js'',
     ''https://static.mangapark.net/v2/js/manga-global.js'',
     ''https://v2.mangapark.net/book-list/'',
     ''https://mangapark.net/misc/'',
     ''https://mangaparkcom.disqus.com/'',
     ''https://www.googletagmanager.com/'',
     ''https://hm.baidu.com/'',
     ''https://s7.addthis.com/'',
     ''https://tags.crwdcntrl.net/'',
     ''https://cdn.run-syndicate.com/'',
     ''https://go.bebi.com/'',
     ''https://st.bebi.com/'',
     ''https://run-syndicate.com/'',
     ''https://platform.bidgear.com/'']"

definition getMangaMetaPolicy :: policy where
  "getMangaMetaPolicy = \<lparr>domains = None, resource = Some (unblock, [''document''])\<rparr>"

definition getPagesPolicy :: policy where
  "getPagesPolicy =
     \<lparr>domains = Some (block, BLOCKED_REQUESTS), resource = Some (unblock, [''document'', ''script''])\<rparr>"

text \<open>A request matches a domain rule when its URL starts with a listed value (section 4.1,
  step 1, of the specification).\<close>

definition matchesDomains :: "policy \<Rightarrow> request \<Rightarrow> bool" where
  "matchesDomains network r =
     (case domains network of
        Some (block, values) \<Rightarrow> list_ex (\<lambda>v. prefix v (requestUrl r)) values
      | _ \<Rightarrow> False)"

text \<open>An environment in which every call succeeds and the page script resolves with \<open>v\<close>.\<close>

definition allDone :: "'a \<Rightarrow> 'a browserEnv" where
  "allDone v = \<lparr>launch = Done, pages = FirstPage, setViewport = Done,
     evaluateOnNewDocument = Done, pageScript = Resolves v, close = Done\<rparr>"

section \<open>The result channel and the public operations\<close>

subsection \<open>The arguments of search and of getLatestUpdates\<close>

text \<open>
  The arguments are the values of their declared types, \<^verbatim>\<open>null\<close> and \<^verbatim>\<open>undefined\<close>; a
  property that the code tests or converts (\<^verbatim>\<open>page\<close>, \<^verbatim>\<open>status\<close>, \<^verbatim>\<open>rating\<close>, \<^verbatim>\<open>type\<close>,
  \<^verbatim>\<open>yearReleased\<close>, \<^verbatim>\<open>orderBy\<close>) is any primitive value.

  A string that the caller passes as the query is the sequence of its UTF-16 code units:
  \<^verbatim>\<open>encodeURIComponent\<close> reads code units, and a string of JavaScript can hold a surrogate
  without its pair.
\<close>

type_synonym codeUnits = "16 word list"

text \<open>\<^verbatim>\<open>query\<close>: \<^verbatim>\<open>null\<close> or \<^verbatim>\<open>undefined\<close> (also when it is left out), a string, or an object
  with the properties \<^verbatim>\<open>author\<close> and \<^verbatim>\<open>title\<close>, in this order (\<open>None\<close> for a property that is
  \<^verbatim>\<open>null\<close> or \<^verbatim>\<open>undefined\<close>). A number or a boolean has neither property and is read as
  such an object.\<close>

datatype mangaSearch =
  QueryNullish
  | QueryString codeUnits
  | QueryObject "codeUnits option" "codeUnits option"

text \<open>An argument that is declared as an object: \<^verbatim>\<open>undefined\<close> (also when it is left out),
  \<^verbatim>\<open>null\<close>, or the object. Another primitive value has none of the properties that the
  code reads and is read as an object without them.\<close>

datatype 'a argument = ArgUndefined | ArgNull | ArgObject 'a

text \<open>\<^verbatim>\<open>MangaParkOptions\<close>, lines 67 to 78. \<open>None\<close> stands for a \<^verbatim>\<open>genres\<close>, \<^verbatim>\<open>include\<close> or
  \<^verbatim>\<open>exclude\<close> that is \<^verbatim>\<open>null\<close> or \<^verbatim>\<open>undefined\<close>; the code tests them for truth only. A
  property that the object lacks is \<open>JUndefined\<close>.\<close>

record genresOption =
  genresInclude :: "string list option"
  genresExclude :: "string list option"

record mangaParkOptions =
  filtersGenres :: "genresOption option"
  filtersStatus :: jsval
  filtersRating :: jsval
  filtersType :: jsval
  filtersYearReleased :: jsval
  filtersOrderBy :: jsval
  filtersPage :: jsval

text \<open>The object \<^verbatim>\<open>{}\<close>.\<close>

definition emptyOptions :: mangaParkOptions where
  "emptyOptions =
     \<lparr>filtersGenres = None, filtersStatus = JUndefined, filtersRating = JUndefined,
      filtersType = JUndefined, filtersYearReleased = JUndefined, filtersOrderBy = JUndefined,
      filtersPage = JUndefined\<rparr>"

text \<open>The enums \<^verbatim>\<open>MangaParkOrderBy\<close> and \<^verbatim>\<open>MangaParkGenres\<close> of the index module (lines 797
  to 803 and 973 to 1074 of part_000). An enum of strings is an object that maps each name to
  its value.\<close>

definition MangaParkOrderBy :: "(string \<times> string) list" where
  "MangaParkOrderBy =
     [(''A-Z'', ''a-z''), (''latest_updates'', ''update''), (''rating'', ''rating''),
      (''new_manga'', ''create''), (''most_views'', ''views_a'')]"

definition MangaParkGenres :: "(string \<times> string) list" where
  "MangaParkGenres =
     [(''4 koma'', ''4-koma''), (''Action'', ''action''), (''Adaptation'', ''adaptation''),
      (''Adult'', ''adult''), (''Adventure'', ''adventure''), (''Aliens'', ''aliens''),
      (''Animals'', ''animals''), (''Anthology'', ''anthology''),
      (''Award winning'', ''award-winning''), (''Comedy'', ''comedy''),
      (''Cooking'', ''cooking''), (''Crime'', ''crime''),
      (''Crossdressing'', ''crossdressing''), (''Delinquents'', ''delinquents''),
      (''Demons'', ''demons''), (''Doujinshi'', ''doujinshi''), (''Drama'', ''drama''),
      (''Ecchi'', ''ecchi''), (''Fan colored'', ''fan-colored''), (''Fantasy'', ''fantasy''),
      (''Food'', ''food''), (''Full color'', ''full-color''), (''Game'', ''game''),
      (''Gender bender'', ''gender-bender''), (''Genderswap'', ''genderswap''),
      (''Ghosts'', ''ghosts''), (''Gore'', ''gore''), (''Gossip'', ''gossip''),
      (''Gyaru'', ''gyaru''), (''Harem'', ''harem''), (''Historical'', ''historical''),
      (''Horror'', ''horror''), (''Incest'', ''incest''), (''Isekai'', ''isekai''),
      (''Josei'', ''josei''), (''Kids'', ''kids''), (''Loli'', ''loli''),
      (''Lolicon'', ''lolicon''), (''Long strip'', ''long-strip''), (''Mafia'', ''mafia''),
      (''Magic'', ''magic''), (''Magical girls'', ''magical-girls''),
      (''Manhwa'', ''manhwa''), (''Martial arts'', ''martial-arts''),
      (''Mature'', ''mature''), (''Mecha'', ''mecha''), (''Medical'', ''medical''),
      (''Military'', ''military''), (''Monster girls'', ''monster-girls''),
      (''Monsters'', ''monsters''), (''Music'', ''music''), (''Mystery'', ''mystery''),
      (''Ninja'', ''ninja''), (''Office workers'', ''office-workers''),
      (''Official colored'', ''official-colored''), (''One shot'', ''one-shot''),
      (''Parody'', ''parody''), (''Philosophical'', ''philosophical''),
      (''Police'', ''police''), (''Post apocalyptic'', ''post-apocalyptic''),
      (''Psychological'', ''psychological''), (''Reincarnation'', ''reincarnation''),
      (''Reverse harem'', ''reverse-harem''), (''Romance'', ''romance''),
      (''Samurai'', ''samurai''), (''School life'', ''school-life''),
      (''Sci fi'', ''sci-fi''), (''Seinen'', ''seinen''), (''Shota'', ''shota''),
      (''Shotacon'', ''shotacon''), (''Shoujo'', ''shoujo''), (''Shoujo ai'', ''shoujo-ai''),
      (''Shounen'', ''shounen''), (''Shounen ai'', ''shounen-ai''),
      (''Slice of life'', ''slice-of-life''), (''Smut'', ''smut''), (''Space'', ''space''),
      (''Sports'', ''sports''), (''Super power'', ''super-power''),
      (''Superhero'', ''superhero''), (''Supernatural'', ''supernatural''),
      (''Survival'', ''survival''), (''Suspense'', ''suspense''),
      (''Thriller'', ''thriller''), (''Time travel'', ''time-travel''),
      (''Toomics'', ''toomics''), (''Traditional games'', ''traditional-games''),
      (''Tragedy'', ''tragedy''), (''User created'', ''user-created''),
      (''Vampire'', ''vampire''), (''Vampires'', ''vampires''),
      (''Video games'', ''video-games''), (''Villainess'', ''villainess''),
      (''Virtual reality'', ''virtual-reality''), (''Web comic'', ''web-comic''),
      (''Webtoon'', ''webtoon''), (''Wuxia'', ''wuxia''), (''Yaoi'', ''yaoi''),
      (''Yuri'', ''yuri''), (''Zombies'', ''zombies'')]"

text \<open>
  The object of an enum inherits the properties of \<^verbatim>\<open>Object.prototype\<close>. Each is given with
  the string that ToString makes of its value in V8: a built-in function, and for
  \<^verbatim>\<open>__proto__\<close> the prototype itself.
\<close>

definition objectPrototype :: "(string \<times> string) list" where
  "objectPrototype =
     [(''constructor'', ''function Object() { [native code] }''),
      (''__defineGetter__'', ''function __defineGetter__() { [native code] }''),
      (''__defineSetter__'', ''function __defineSetter__() { [native code] }''),
      (''hasOwnProperty'', ''function hasOwnProperty() { [native code] }''),
      (''__lookupGetter__'', ''function __lookupGetter__() { [native code] }''),
      (''__lookupSetter__'', ''function __lookupSetter__() { [native code] }''),
      (''isPrototypeOf'', ''function isPrototypeOf() { [native code] }''),
      (''propertyIsEnumerable'', ''function propertyIsEnumerable() { [native code] }''),
      (''toString'', ''function toString() { [native code] }''),
      (''valueOf'', ''function valueOf() { [native code] }''),
      (''__proto__'', ''[object Object]''),
      (''toLocaleString'', ''function toLocaleString() { [native code] }'')]"

text \<open>\<^verbatim>\<open>Enum[name]\<close> as ToString gives it; \<open>None\<close> where it is \<^verbatim>\<open>undefined\<close>.\<close>

definition enumProperty :: "(string \<times> string) list \<Rightarrow> string \<Rightarrow> string option" where
  "enumProperty enum name =
     (case map_of enum name of Some v \<Rightarrow> Some v | None \<Rightarrow> map_of objectPrototype name)"

subsection \<open>encodeURIComponent\<close>

text \<open>
  \<^verbatim>\<open>encodeURIComponent\<close> as ECMAScript defines it (the operations Encode and CodePointAt):
  a code unit of the unreserved set stands for itself; any other code point is written as
  the octets of its UTF-8 form, each as \<^verbatim>\<open>%\<close> and two upper-case hexadecimal digits; a
  surrogate without its pair raises a URIError.
\<close>

definition uriUnreserved :: string where
  "uriUnreserved =
     ''ABCDEFGHIJKLMNOPQRSTUVWXYZabcdefghijklmnopqrstuvwxyz0123456789-_.!~*'' @ [CHR 0x27]
     @ ''()''"

definition hexDigit :: "nat \<Rightarrow> char" where
  "hexDigit n = ''0123456789ABCDEF'' ! n"

definition percentEncoded :: "nat \<Rightarrow> string" where
  "percentEncoded octet = [CHR ''%'', hexDigit (octet div 16), hexDigit (octet mod 16)]"

definition utf8Octets :: "nat \<Rightarrow> nat list" where
  "utf8Octets cp =
     (if cp < 0x80 then [cp]
      else if cp < 0x800 then [0xC0 + cp div 0x40, 0x80 + cp mod 0x40]
      else if cp < 0x10000
      then [0xE0 + cp div 0x1000, 0x80 + cp div 0x40 mod 0x40, 0x80 + cp mod 0x40]
      else [0xF0 + cp div 0x40000, 0x80 + cp div 0x1000 mod 0x40, 0x80 + cp div 0x40 mod 0x40,
            0x80 + cp mod 0x40])"

definition isLeadingSurrogate :: "nat \<Rightarrow> bool" where
  "isLeadingSurrogate c = (0xD800 \<le> c \<and> c \<le> 0xDBFF)"

definition isTrailingSurrogate :: "nat \<Rightarrow> bool" where
  "isTrailingSurrogate c = (0xDC00 \<le> c \<and> c \<le> 0xDFFF)"

text \<open>Encode, on the values of the code units. The message of the error is that of V8.\<close>

fun Encode :: "nat list \<Rightarrow> error + string" where
  "Encode [] = Inr []"
| "Encode (c # cs) =
     (case List.find (\<lambda>ch. of_char ch = c) uriUnreserved of
        Some ch \<Rightarrow> (case Encode cs of Inl e \<Rightarrow> Inl e | Inr R \<Rightarrow> Inr (ch # R))
      | None \<Rightarrow>
          if \<not> isLeadingSurrogate c \<and> \<not> isTrailingSurrogate c
          then (case Encode cs of
                  Inl e \<Rightarrow> Inl e
                | Inr R \<Rightarrow> Inr (concat (map percentEncoded (utf8Octets c)) @ R))
          else if isTrailingSurrogate c then Inl (URIError ''URI malformed'')
          else (case cs of
                  [] \<Rightarrow> Inl (URIError ''URI malformed'')
                | d # ds \<Rightarrow>
                    if \<not> isTrailingSurrogate d then Inl (URIError ''URI malformed'')
                    else (case Encode ds of
                            Inl e \<Rightarrow> Inl e
                          | Inr R \<Rightarrow>
                              Inr (concat (map percentEncoded
                                     (utf8Octets ((c - 0xD800) * 0x400 + (d - 0xDC00) + 0x10000)))
                                   @ R))))"

definition encodeURIComponent :: "codeUnits \<Rightarrow> error + string" where
  "encodeURIComponent uriComponent = Encode (map unat uriComponent)"

subsection \<open>The result channel\<close>

text \<open>The first argument of \<^verbatim>\<open>failure\<close>: a message written in the source, or a value caught
  by \<^verbatim>\<open>catch (e)\<close>.\<close>

datatype failureArg = Message string | Caught error

datatype 'a outcome = Success 'a | Failure failureArg

text \<open>What an operation has delivered: the outcomes its callback was called with, in order,
  and the settlement of its promise (\<open>None\<close> while it is pending).\<close>

record 'a channel =
  callbackCalls :: "'a outcome list"
  promise :: "'a outcome option"

definition pending :: "'a channel" where
  "pending = \<lparr>callbackCalls = [], promise = None\<rparr>"

text \<open>
  Modelled from the spec: \<^verbatim>\<open>success(value, callback, resolve)\<close> of
  \<^verbatim>\<open>../functions/success\<close>, a file that is not among the sources. Section 6: the callback is
  invoked with the same outcome as the future resolves with. Resolving a promise that is
  settled already changes nothing. What a callback does when it is called is not part of the
  model.
\<close>

definition success :: "'a \<Rightarrow> 'a channel \<Rightarrow> 'a channel" where
  "success v ch =
     \<lparr>callbackCalls = callbackCalls ch @ [Success v],
      promise = (case promise ch of None \<Rightarrow> Some (Success v) | Some settled \<Rightarrow> Some settled)\<rparr>"

text \<open>
  Modelled from the spec: \<^verbatim>\<open>failure(error, callback, reject)\<close> of
  \<^verbatim>\<open>../functions/failure\<close>, a file that is not among the sources; as for \<open>success\<close>.
\<close>

definition failure :: "failureArg \<Rightarrow> 'a channel \<Rightarrow> 'a channel" where
  "failure e ch =
     \<lparr>callbackCalls = callbackCalls ch @ [Failure e],
      promise = (case promise ch of None \<Rightarrow> Some (Failure e) | Some settled \<Rightarrow> Some settled)\<rparr>"

text \<open>The calls an operation makes to the network and to the browser: \<^verbatim>\<open>readHtml(url, ...)\<close>,
  and the calls that automateBrowser makes.\<close>

datatype effect = ReadHtml string | Browser event

record 'a operation =
  effects :: "effect list"
  channel :: "'a channel"

subsection \<open>search\<close>

text \<open>ToBoolean of a primitive value, and \<^verbatim>\<open>Array.prototype.join\<close>.\<close>

definition toBoolean :: "jsval \<Rightarrow> bool" where
  "toBoolean v =
     (case v of
        JUndefined \<Rightarrow> False
      | JNull \<Rightarrow> False
      | JBoolean b \<Rightarrow> b
      | JNumber n \<Rightarrow> \<not> (n = NaN \<or> isZero n)
      | JString s \<Rightarrow> s \<noteq> [])"

definition join :: "string \<Rightarrow> string list \<Rightarrow> string" where
  "join separator items =
     (case items of [] \<Rightarrow> [] | item # rest \<Rightarrow> foldl (\<lambda>R next. R @ separator @ next) item rest)"

text \<open>A destructuring pattern with a default, \<^verbatim>\<open>status = 'any'\<close>: the default applies to
  \<^verbatim>\<open>undefined\<close> only. \<open>pageOrDefault\<close> is the pattern \<^verbatim>\<open>page = 1\<close> of line 127.\<close>

definition orDefault :: "jsval \<Rightarrow> jsval \<Rightarrow> jsval" where
  "orDefault v d = (if v = JUndefined then d else v)"

definition pageOrDefault :: "jsval \<Rightarrow> jsval" where
  "pageOrDefault pageFilter = (if pageFilter = JUndefined then JNumber (Finite 1) else pageFilter)"

text \<open>Lines 131 to 143. The author is encoded before the title; \<^verbatim>\<open>join('')\<close> puts the title
  first.\<close>

definition queryParam :: "mangaSearch \<Rightarrow> error + string" where
  "queryParam query =
     (case query of
        QueryNullish \<Rightarrow> Inr []
      | QueryString s \<Rightarrow>
          if length s = 0 then Inr []
          else (case encodeURIComponent s of Inl e \<Rightarrow> Inl e | Inr encoded \<Rightarrow> Inr (''q='' @ encoded))
      | QueryObject queryAuthor queryTitle \<Rightarrow>
          (case (case queryAuthor of
                   None \<Rightarrow> Inr []
                 | Some a \<Rightarrow>
                     (case encodeURIComponent a of
                        Inl e \<Rightarrow> Inl e
                      | Inr encoded \<Rightarrow> Inr (''autart='' @ encoded))) of
             Inl e \<Rightarrow> Inl e
           | Inr author \<Rightarrow>
               (case (case queryTitle of
                        None \<Rightarrow> Inr []
                      | Some t \<Rightarrow>
                          (case encodeURIComponent t of
                             Inl e \<Rightarrow> Inl e
                           | Inr encoded \<Rightarrow> Inr (''q='' @ encoded))) of
                  Inl e \<Rightarrow> Inl e
                | Inr query' \<Rightarrow>
                    Inr (join [] (filter (\<lambda>item. length item \<noteq> 0) [query', author])))))"

text \<open>Lines 145 to 153. \<^verbatim>\<open>MangaParkGenres[genre]\<close> is \<^verbatim>\<open>undefined\<close> for a name that the enum
  lacks, and the conversion of the array to a string joins its elements with commas,
  \<^verbatim>\<open>undefined\<close> as the empty string.\<close>

definition genresValues :: "string list \<Rightarrow> string" where
  "genresValues names =
     join '',''
       (map (\<lambda>genre. case enumProperty MangaParkGenres genre of None \<Rightarrow> [] | Some v \<Rightarrow> v) names)"

definition includeGenres :: "genresOption option \<Rightarrow> string" where
  "includeGenres genres' =
     (case genres' of
        None \<Rightarrow> []
      | Some g \<Rightarrow>
          (case genresInclude g of
             None \<Rightarrow> []
           | Some names \<Rightarrow> if length names > 0 then ''genres='' @ genresValues names else []))"

definition excludeGenres :: "genresOption option \<Rightarrow> string" where
  "excludeGenres genres' =
     (case genres' of
        None \<Rightarrow> []
      | Some g \<Rightarrow>
          (case genresExclude g of
             None \<Rightarrow> []
           | Some names \<Rightarrow>
               if length names > 0 then ''genres-exclude='' @ genresValues names else []))"

text \<open>Line 155, \<^verbatim>\<open>rating !== 'any' ? `rating=${rating.substring(0, 0)}` : ''\<close>, for the rating
  after its default. \<^verbatim>\<open>substring(0, 0)\<close> is the empty string; a value that is no string has
  no method \<^verbatim>\<open>substring\<close>, and the call raises a TypeError.\<close>

definition mangaRatingParam :: "jsval \<Rightarrow> error + string" where
  "mangaRatingParam rating' =
     (if rating' = JString ''any'' then Inr []
      else (case rating' of
              JString s \<Rightarrow> Inr (''rating='' @ take 0 s)
            | JNull \<Rightarrow> Inl (TypeError ''Cannot read properties of null'')
            | JUndefined \<Rightarrow> Inl (TypeError ''Cannot read properties of undefined'')
            | _ \<Rightarrow> Inl (TypeError ''rating.substring is not a function'')))"

text \<open>Lines 157 to 163. A template literal converts the value with ToString;
  \<^verbatim>\<open>MangaParkOrderBy[orderBy]\<close> looks up the name that ToString gives.\<close>

definition mangaStatus :: "jsval \<Rightarrow> string" where
  "mangaStatus status = (if status \<noteq> JString ''any'' then ''status='' @ toStringValue status else [])"

definition mangaType :: "jsval \<Rightarrow> string" where
  "mangaType type' = (if type' \<noteq> JString ''any'' then ''types='' @ toStringValue type' else [])"

definition year :: "jsval \<Rightarrow> string" where
  "year yearReleased =
     (if toBoolean yearReleased then ''years='' @ toStringValue yearReleased else [])"

definition order :: "jsval \<Rightarrow> string" where
  "order orderBy =
     ''orderby='' @ (case enumProperty MangaParkOrderBy (toStringValue orderBy) of
                       None \<Rightarrow> ''undefined''
                     | Some v \<Rightarrow> v)"

text \<open>
  Lines 119 to 181: the destructuring of the filters with its defaults, and the URL. These
  statements run when \<^verbatim>\<open>search\<close> is called, before the promise is created; what they throw
  leaves \<^verbatim>\<open>search\<close> as an exception. \<open>Inl\<close> is the value thrown, \<open>Inr\<close> the URL.
\<close>

definition searchUrl :: "mangaSearch \<Rightarrow> mangaParkOptions \<Rightarrow> error + string" where
  "searchUrl query filters =
     (let genres' = filtersGenres filters;
          status = orDefault (filtersStatus filters) (JString ''any'');
          rating' = orDefault (filtersRating filters) (JString ''any'');
          type' = orDefault (filtersType filters) (JString ''any'');
          yearReleased = filtersYearReleased filters;
          orderBy = orDefault (filtersOrderBy filters) (JString ''most_views'');
          page = pageOrDefault (filtersPage filters)
      in case queryParam query of
           Inl e \<Rightarrow> Inl e
         | Inr q \<Rightarrow>
             (case mangaRatingParam rating' of
                Inl e \<Rightarrow> Inl e
              | Inr r \<Rightarrow>
                  (let args = join ''&''
                         (filter (\<lambda>i. length i \<noteq> 0)
                            [q, includeGenres genres', excludeGenres genres', r,
                             mangaStatus status, mangaType type', year yearReleased,
                             order orderBy, ''st-ss=0'', ''page='' @ toStringValue page])
                   in Inr (''https://v2.mangapark.net/search?'' @ args))))"

text \<open>
  Lines 183 to 258: the function that \<^verbatim>\<open>search\<close> gives to \<^verbatim>\<open>new Promise\<close>. \<open>url'\<close> is the URL, \<open>page\<close> the
  page after its default; \<open>html\<close> is what \<^verbatim>\<open>readHtml(url, ...)\<close> gives, an error or the parsed
  document. The buffer \<open>memo\<close> goes in and comes out.
\<close>

definition searchPromise ::
  "string \<Rightarrow> jsval \<Rightarrow> memo \<Rightarrow> error + searchDocument \<Rightarrow> memo \<times> mangaParkManga list operation" where
  "searchPromise url' page memo html =
     (if typeof page \<noteq> ''number''
      then (memo, \<lparr>effects = [], channel = failure (Message ''\"page\" must be a number'') pending\<rparr>)
      else if isNullish page
      then (memo, \<lparr>effects = [],
                   channel = failure (Message ''Missing argument \"page\" is required'') pending\<rparr>)
      else (case html of
              Inl e \<Rightarrow> (memo, \<lparr>effects = [ReadHtml url'], channel = failure (Caught e) pending\<rparr>)
            | Inr doc \<Rightarrow>
                (let extracted = searchExtract memo doc
                 in (snd extracted,
                     \<lparr>effects = [ReadHtml url'], channel = success (fst extracted) pending\<rparr>))))"

text \<open>
  \<^verbatim>\<open>search\<close>, lines 112 to 259. The result is the buffer as the call leaves it and, \<open>Inl\<close>,
  the exception that the call throws, in which case there is no promise and the callback
  has not been called, or, \<open>Inr\<close>, what the promise that it returns does. A query or filters
  that are \<^verbatim>\<open>null\<close> or \<^verbatim>\<open>undefined\<close> are the empty string and \<^verbatim>\<open>{}\<close> (lines 113 to 117).
\<close>

definition search ::
  "mangaSearch \<Rightarrow> mangaParkOptions argument \<Rightarrow> memo \<Rightarrow> error + searchDocument
     \<Rightarrow> memo \<times> (error + mangaParkManga list operation)" where
  "search query filters memo html =
     (let query = (case query of QueryNullish \<Rightarrow> QueryString [] | _ \<Rightarrow> query);
          filters = (case filters of ArgObject given \<Rightarrow> given | _ \<Rightarrow> emptyOptions)
      in case searchUrl query filters of
           Inl e \<Rightarrow> (memo, Inl e)
         | Inr url' \<Rightarrow>
             (let promised = searchPromise url' (pageOrDefault (filtersPage filters)) memo html
              in (fst promised, Inr (snd promised))))"

subsection \<open>getMangaMeta, getPages and getLatestUpdates\<close>

text \<open>
  \<^verbatim>\<open>getMangaMeta\<close>, lines 279 to 454. \<open>env\<close> is what the browser and the page script do;
  \<open>extract\<close> stands for lines 294 to 447, which read the fields from the HTML with cheerio
  and may throw (line 339 calls \<^verbatim>\<open>toLowerCase\<close> on a value that can be \<^verbatim>\<open>undefined\<close>).
\<close>

definition getMangaMeta ::
  "scrapingOptions \<Rightarrow> jsval \<Rightarrow> string browserEnv \<Rightarrow> (string \<Rightarrow> error + 'meta) \<Rightarrow> 'meta operation" where
  "getMangaMeta options mangaUrl env extract =
     (if isNullish mangaUrl
      then \<lparr>effects = [], channel = failure (Message ''Missing argument \"url\" is required'') pending\<rparr>
      else (let automation = automateBrowserWithPolicy options env getMangaMetaPolicy
            in case settles automation of
                 Inl e \<Rightarrow> \<lparr>effects = map Browser (trace automation),
                            channel = failure (Caught e) pending\<rparr>
               | Inr html \<Rightarrow>
                   (case extract html of
                      Inl e \<Rightarrow> \<lparr>effects = map Browser (trace automation),
                                 channel = failure (Caught e) pending\<rparr>
                    | Inr meta \<Rightarrow> \<lparr>effects = map Browser (trace automation),
                                    channel = success meta pending\<rparr>)))"

text \<open>\<^verbatim>\<open>getPages\<close>, lines 546 to 572: the page script returns the image URLs.\<close>

definition getPages ::
  "scrapingOptions \<Rightarrow> jsval \<Rightarrow> string list browserEnv \<Rightarrow> string list operation" where
  "getPages options chapterUrl env =
     (if isNullish chapterUrl
      then \<lparr>effects = [], channel = failure (Message ''Missing argument \"url\" is required'') pending\<rparr>
      else (let automation = automateBrowserWithPolicy options env getPagesPolicy
            in case settles automation of
                 Inl e \<Rightarrow> \<lparr>effects = map Browser (trace automation),
                            channel = failure (Caught e) pending\<rparr>
               | Inr data \<Rightarrow> \<lparr>effects = map Browser (trace automation),
                               channel = success data pending\<rparr>))"

text \<open>
  \<^verbatim>\<open>getLatestUpdates\<close>, lines 464 to 508. The default \<^verbatim>\<open>{ page: 1 }\<close> applies to options
  that are \<^verbatim>\<open>undefined\<close>; \<open>ArgObject p\<close> is an object whose property \<^verbatim>\<open>page\<close> is \<open>p\<close>. Line 468,
  \<^verbatim>\<open>const { page } = options\<close>, runs before the promise is created and raises a TypeError for
  \<^verbatim>\<open>null\<close>: \<open>Inl\<close> is the exception that the call throws, \<open>Inr\<close> what the promise that it
  returns does. \<^verbatim>\<open>page < 1\<close> compares numbers after ToNumber. \<open>extract\<close> stands for the loop
  of lines 478 to 501, which reads the items with cheerio.
\<close>

definition getLatestUpdates ::
  "jsval argument \<Rightarrow> error + 'doc \<Rightarrow> ('doc \<Rightarrow> 'item list) \<Rightarrow> error + 'item list operation" where
  "getLatestUpdates options html extract =
     (case (case options of ArgUndefined \<Rightarrow> ArgObject (JNumber (Finite 1)) | _ \<Rightarrow> options) of
        ArgObject page \<Rightarrow>
          Inr (if numberLess (toNumber page) (Finite 1)
               then \<lparr>effects = [],
                     channel =
                       failure (Message ''Argument \"page\" must be greater than or equal to 1'')
                         pending\<rparr>
               else (let latestUrl = ''https://v2.mangapark.net/latest/'' @ toStringValue page
                     in case html of
                          Inl e \<Rightarrow> \<lparr>effects = [ReadHtml latestUrl],
                                     channel = failure (Caught e) pending\<rparr>
                        | Inr doc \<Rightarrow> \<lparr>effects = [ReadHtml latestUrl],
                                       channel = success (extract doc) pending\<rparr>))
      | _ \<Rightarrow> Inl (TypeError ''Cannot destructure property page of null''))"

section \<open>Documents used as concrete inputs\<close>

text \<open>A result row whose author walk ends with an element that is not the label: the
  first element child of the \<^verbatim>\<open>div\<close> (the last one \<^verbatim>\<open>prevAll\<close> reaches) holds the text
  \<^verbatim>\<open>new\<close>.\<close>

definition leftoverDocument :: searchDocument where
  "leftoverDocument =
     \<lparr>titleAnchors = [\<lparr>hrefAttr = Some ''/manga/one-piece'', titleAttr = Some ''One Piece''\<rparr>],
      authorSiblings = [''Oda'', ''Authors/Artists:'', ''new''],
      genreAnchors = [\<lparr>anchorText = ''Action'', nextIsAnchor = True\<rparr>,
                      \<lparr>anchorText = ''Drama'', nextIsAnchor = False\<rparr>],
      rateTitles = [],
      coverSrcs = [Some ''https://img/one-piece.jpg'']\<rparr>"

text \<open>The same row without genre anchors.\<close>

definition noGenresDocument :: searchDocument where
  "noGenresDocument =
     \<lparr>titleAnchors = [\<lparr>hrefAttr = Some ''/manga/one-piece'', titleAttr = Some ''One Piece''\<rparr>],
      authorSiblings = [''Oda'', ''Authors/Artists:'', ''new''],
      genreAnchors = [],
      rateTitles = [],
      coverSrcs = [Some ''https://img/one-piece.jpg'']\<rparr>"

text \<open>A row whose walks both end with their marker.\<close>

definition berserkDocument :: searchDocument where
  "berserkDocument =
     \<lparr>titleAnchors = [\<lparr>hrefAttr = Some ''/manga/berserk'', titleAttr = Some ''Berserk''\<rparr>],
      authorSiblings = [''Miura'', ''Authors/Artists:''],
      genreAnchors = [\<lparr>anchorText = ''Horror'', nextIsAnchor = False\<rparr>],
      rateTitles = [],
      coverSrcs = []\<rparr>"

section \<open>Properties of the number model\<close>

text \<open>The two loops of \<open>floorLog\<close> find the exponent they are meant to find, and a finite
  result of \<open>roundMagnitude\<close> is within half a unit of the last place of the exact value.\<close>

lemma logUp_bounds:
  "2 \<le> b \<Longrightarrow> 1 \<le> q \<Longrightarrow>
     k \<le> logUp b q k
     \<and> of_int b ^ nat (logUp b q k - k) \<le> q
     \<and> q < of_int b ^ nat (logUp b q k - k + 1)"
proof (induction b q k rule: logUp.induct)
  case (1 b q k)
  have b0: "(0::rat) < of_int b" using "1.prems"(1) by simp
  show ?case
  proof (cases "of_int b \<le> q")
    case True
    define e where "e = logUp b (q / of_int b) (k + 1)"
    have eq: "logUp b q k = e"
      using "1.prems"(1) True by (subst logUp.simps) (simp add: e_def)
    have pre: "1 \<le> q / of_int b"
      using True b0 by (simp add: le_divide_eq)
    have ih: "k + 1 \<le> e \<and> of_int b ^ nat (e - (k + 1)) \<le> q / of_int b
              \<and> q / of_int b < of_int b ^ nat (e - (k + 1) + 1)"
      using "1.IH" [OF _ "1.prems"(1) pre] "1.prems"(1) True by (simp add: e_def)
    then have n: "nat (e - k) = Suc (nat (e - (k + 1)))" by linarith
    have n': "nat (e - k + 1) = Suc (nat (e - (k + 1) + 1))" using ih by linarith
    from ih b0 have "of_int b ^ nat (e - (k + 1)) * of_int b \<le> q"
      by (simp add: le_divide_eq)
    moreover from ih b0 have "q < of_int b ^ nat (e - (k + 1) + 1) * of_int b"
      by (simp add: divide_less_eq)
    ultimately show ?thesis
      using ih unfolding eq n n' by (simp add: mult.commute)
  next
    case False
    then have "logUp b q k = k" by (subst logUp.simps) simp
    with False "1.prems" show ?thesis by simp
  qed
qed

lemma logDown_bounds:
  "2 \<le> b \<Longrightarrow> 0 < q \<Longrightarrow> q < of_int b \<Longrightarrow>
     logDown b q k \<le> k
     \<and> 1 \<le> q * of_int b ^ nat (k - logDown b q k)
     \<and> q * of_int b ^ nat (k - logDown b q k) < of_int b"
proof (induction b q k rule: logDown.induct)
  case (1 b q k)
  have b0: "(0::rat) < of_int b" using "1.prems"(1) by simp
  show ?case
  proof (cases "q < 1")
    case True
    define e where "e = logDown b (q * of_int b) (k - 1)"
    have eq: "logDown b q k = e"
      using "1.prems" True by (subst logDown.simps) (simp add: e_def)
    have pre1: "0 < q * of_int b" using "1.prems"(2) b0 by simp
    have pre2: "q * of_int b < of_int b" using True b0 by simp
    have ih: "e \<le> k - 1 \<and> 1 \<le> q * of_int b * of_int b ^ nat (k - 1 - e)
              \<and> q * of_int b * of_int b ^ nat (k - 1 - e) < of_int b"
      using "1.IH" [OF _ "1.prems"(1) pre1 pre2] "1.prems" True by (simp add: e_def)
    then have n: "nat (k - e) = Suc (nat (k - 1 - e))" by linarith
    show ?thesis
      using ih unfolding eq n by (simp add: mult.assoc)
  next
    case False
    then have "logDown b q k = k" by (subst logDown.simps) simp
    with False "1.prems" show ?thesis by simp
  qed
qed

lemma floorLog_bounds:
  assumes "2 \<le> b" and "0 < q"
  shows "powInt b (floorLog b q) \<le> q \<and> q < powInt b (floorLog b q + 1)"
proof (cases "1 \<le> q")
  case True
  with logUp_bounds [OF assms(1) True, of 0] show ?thesis
    by (simp add: floorLog_def powInt_def)
next
  case False
  have b0: "(0::rat) < of_int b" using assms(1) by simp
  have qb: "q < of_int b" using False assms(1) by simp
  define e where "e = logDown b q 0"
  define p where "p = (of_int b :: rat) ^ nat (- e)"
  have p0: "0 < p" using b0 by (simp add: p_def)
  have bounds: "e \<le> 0 \<and> 1 \<le> q * p \<and> q * p < of_int b"
    using logDown_bounds [OF assms(1) assms(2) qb, of 0] by (simp add: e_def p_def)
  have neg: "e < 0"
  proof (rule ccontr)
    assume "\<not> e < 0"
    with bounds have "e = 0" by simp
    with bounds False show False by (simp add: p_def)
  qed
  have fl: "floorLog b q = e" using False by (simp add: floorLog_def e_def)
  have lower: "powInt b e \<le> q"
    using bounds neg p0 by (simp add: powInt_def p_def [symmetric] divide_le_eq)
  have upper: "q < powInt b (e + 1)"
  proof (cases "e = - 1")
    case True
    with False show ?thesis by (simp add: powInt_def)
  next
    case no: False
    with neg have e1: "e + 1 < 0" by simp
    then have "nat (- e) = Suc (nat (- (e + 1)))" by linarith
    then have "p = of_int b * of_int b ^ nat (- (e + 1))" by (simp add: p_def)
    with bounds b0 have "q * of_int b ^ nat (- (e + 1)) < 1" by simp
    moreover have "(0::rat) < of_int b ^ nat (- (e + 1))" using b0 by simp
    ultimately show ?thesis
      using e1 by (simp add: powInt_def less_divide_eq)
  qed
  from lower upper show ?thesis unfolding fl by simp
qed

lemma roundHalfEven_nearest: "\<bar>of_int (roundHalfEven q) - q\<bar> \<le> 1 / 2"
proof -
  have "of_int \<lfloor>q\<rfloor> \<le> q" and "q < of_int \<lfloor>q\<rfloor> + 1"
    by linarith+
  then show ?thesis
    by (auto simp: roundHalfEven_def Let_def abs_le_iff)
qed

lemma powInt_pos: "0 < b \<Longrightarrow> 0 < powInt b k"
  by (simp add: powInt_def)

lemma powInt_inverse: "0 < b \<Longrightarrow> powInt b (- k) * powInt b k = 1"
  by (cases "k = 0") (auto simp: powInt_def)

lemma roundMagnitude_nearest:
  assumes "0 < a" and "roundMagnitude neg a = Finite x"
  shows "\<bar>\<bar>x\<bar> - a\<bar> \<le> powInt 2 (max (floorLog 2 a) (- 1022) - 52) / 2"
proof -
  define sh where "sh = max (floorLog 2 a) (- 1022) - 52"
  define m where "m = roundHalfEven (a * powInt 2 (- sh))"
  have p: "0 < powInt 2 sh" by (simp add: powInt_pos)
  have inv: "powInt 2 (- sh) * powInt 2 sh = 1" by (simp add: powInt_inverse)
  have m0: "0 \<le> m"
  proof -
    have "0 \<le> a * powInt 2 (- sh)" using assms(1) powInt_pos [of 2 "- sh"] by simp
    then have "0 \<le> \<lfloor>a * powInt 2 (- sh)\<rfloor>" by simp
    then show ?thesis by (simp add: m_def roundHalfEven_def Let_def)
  qed
  have x: "\<bar>x\<bar> = of_int m * powInt 2 sh"
  proof (cases "m = 0")
    case True
    with assms show ?thesis
      by (auto simp: roundMagnitude_def Let_def sh_def [symmetric] m_def [symmetric]
          signedZero_def split: if_splits)
  next
    case False
    with m0 have "0 < of_int m * powInt 2 sh" using p by simp
    with assms False show ?thesis
      by (auto simp: roundMagnitude_def Let_def sh_def [symmetric] m_def [symmetric]
          signedZero_def signedInf_def split: if_splits)
  qed
  have "\<bar>of_int m - a * powInt 2 (- sh)\<bar> \<le> 1 / 2"
    unfolding m_def by (rule roundHalfEven_nearest)
  then have "\<bar>of_int m - a * powInt 2 (- sh)\<bar> * powInt 2 sh \<le> 1 / 2 * powInt 2 sh"
    using p by (intro mult_right_mono) auto
  moreover have "\<bar>of_int m - a * powInt 2 (- sh)\<bar> * powInt 2 sh
                   = \<bar>of_int m * powInt 2 sh - a\<bar>"
  proof -
    have "\<bar>of_int m - a * powInt 2 (- sh)\<bar> * powInt 2 sh
            = \<bar>(of_int m - a * powInt 2 (- sh)) * powInt 2 sh\<bar>"
      using p by (simp add: abs_mult)
    also have "(of_int m - a * powInt 2 (- sh)) * powInt 2 sh
                 = of_int m * powInt 2 sh - a * (powInt 2 (- sh) * powInt 2 sh)"
      by (simp add: algebra_simps)
    finally show ?thesis by (simp add: inv)
  qed
  ultimately show ?thesis
    unfolding x sh_def by simp
qed

section \<open>Properties of the rating\<close>

text \<open>Evaluation of the number model on the values of the example: each step is proved
  on its own, by rewriting with the definitions.\<close>

lemma floor_rat_numeral_divide:
  "\<lfloor>(numeral a :: rat) / numeral b\<rfloor> = numeral a div numeral b"
  using floor_divide_of_int_eq [of "numeral a" "numeral b", where ?'a = rat] by simp

lemmas roundEval = roundMagnitude_def floorLog_def logUp.simps logDown.simps powInt_def
  roundHalfEven_def Let_def floor_rat_numeral_divide

lemmas parseEval = NumberOf_def StringToNumber_def trimString_def isStrWhiteSpaceChar_def
  nonDecimalIntegerLiteral_def unsignedDecimalLiteral_def exponentPart_def isDigitOf_def
  digitValue_def

lemmas classEval = isNeg_def isInf_def isZero_def magnitude_def signedInf_def signedZero_def

lemma round_4: "roundMagnitude False 4 = Finite 4"
  by (simp add: roundEval)

lemma round_5: "roundMagnitude False 5 = Finite 5"
  by (simp add: roundEval)

lemma round_6: "roundMagnitude False 6 = Finite 6"
  by (simp add: roundEval)

lemma round_42_tenths:
  "roundMagnitude False (42 / 10) = Finite (4728779608739021 / 1125899906842624)"
  by (simp add: roundEval)

lemma round_43_tenths:
  "roundMagnitude False (43 / 10) = Finite (4841369599423283 / 1125899906842624)"
  by (simp add: roundEval)

lemma Number_4_3: "NumberOf (Some ''4.3'') = Finite (4841369599423283 / 1125899906842624)"
  by (simp add: parseEval roundEval)

lemma Number_5: "NumberOf (Some ''5'') = Finite 5"
  by (simp add: parseEval roundEval)

lemma Number_0: "NumberOf (Some ''0'') = Finite 0"
  by (simp add: parseEval roundEval signedZero_def)

lemma Number_five: "NumberOf (Some ''five'') = NaN"
  by (simp add: parseEval)

lemma divide_4_3_by_5:
  "numberDivide (Finite (4841369599423283 / 1125899906842624)) (Finite 5)
     = Finite (7746191359077253 / 9007199254740992)"
  by (simp add: numberDivide_def classEval roundEval)

lemma times_100:
  "numberMultiply (Finite (7746191359077253 / 9007199254740992)) (Finite 100) = Finite 86"
  by (simp add: numberMultiply_def classEval roundEval)

lemma natToString_numeral:
  "natToString (numeral v) =
     (if numeral v < (10::nat) then [digitChar (numeral v)]
      else natToString (numeral v div 10) @ [digitChar (numeral v mod 10)])"
  by (rule natToString.simps)

lemma natToString_0: "natToString 0 = ''0''"
  by (simp add: natToString.simps digitChar_def)

lemma natToString_1: "natToString (Suc 0) = ''1''"
  by (simp add: natToString.simps digitChar_def)

lemma shortestDigits_numeral:
  "shortestDigits (numeral v) k q n =
     (let scale = powInt 10 (n - int k);
          lo = \<lfloor>q / scale\<rfloor>;
          hi = lo + 1;
          okLo = (roundMagnitude False (of_int lo * scale) = Finite q);
          okHi = (roundMagnitude False (of_int hi * scale) = Finite q)
      in if okLo \<and> okHi
         then (let dLo = q - of_int lo * scale; dHi = of_int hi * scale - q
               in if dLo < dHi \<or> (dLo = dHi \<and> even lo) then (nat lo, k) else (nat hi, k))
         else if okLo then (nat lo, k)
         else if okHi then (nat hi, k)
         else shortestDigits (pred_numeral v) (Suc k) q n)"
  using shortestDigits.simps(2) [of "pred_numeral v" k q n]
  by (simp only: numeral_eq_Suc [symmetric])

lemmas stringEval = natToString_numeral natToString_0 natToString_1 digitChar_def

text \<open>The arithmetic is binary: the literal 1.005 denotes a binary64 value just below it, and
  \<^verbatim>\<open>(1.005).toFixed(2)\<close> is \<^verbatim>\<open>1.00\<close>.\<close>

lemma toFixed_1_005: "toFixed 2 (NumberOf (Some ''1.005'')) = ''1.00''"
proof -
  have "NumberOf (Some ''1.005'') = Finite (1131529406376837 / 1125899906842624)"
    by (simp add: parseEval roundEval)
  then show ?thesis
    by (simp add: toFixed_def Let_def stringEval floor_rat_numeral_divide)
qed

lemma toFixed_86: "toFixed 2 (Finite 86) = ''86.00''"
  by (simp add: toFixed_def Let_def stringEval floor_rat_numeral_divide)

lemma shortest_5: "shortestDigits 17 (Suc 0) 5 1 = (5, Suc 0)"
  using round_5 round_6
  by (simp add: shortestDigits_numeral Let_def powInt_def)

lemma toString_5: "numberToString (Finite 5) = ''5''"
  by (simp add: numberToString_def positiveToString_def Let_def shortest_5 floorLog_def
      logUp.simps stringEval)

lemma shortest_4_3:
  "shortestDigits 17 (Suc 0) (4841369599423283 / 1125899906842624) 1 = (43, 2)"
  using round_4 round_5 round_42_tenths round_43_tenths
  by (simp add: shortestDigits_numeral Let_def powInt_def floor_rat_numeral_divide)

lemma toString_4_3: "numberToString (Finite (4841369599423283 / 1125899906842624)) = ''4.3''"
  by (simp add: numberToString_def positiveToString_def Let_def shortest_4_3 floorLog_def
      logUp.simps stringEval)

lemma percentage_NaN_denominator:
  "toFixed 2 (numberMultiply (numberDivide n NaN) (Finite 100)) = ''NaN''"
  by (simp add: numberDivide_def numberMultiply_def toFixed_def)

lemma percentage_NaN_numerator:
  "toFixed 2 (numberMultiply (numberDivide NaN d) (Finite 100)) = ''NaN''"
  by (simp add: numberDivide_def numberMultiply_def toFixed_def)

lemma zero_not_special: "isZero d \<Longrightarrow> d \<noteq> NaN \<and> \<not> isInf d"
  by (auto simp: isZero_def isInf_def)

lemma percentage_zero_by_zero:
  assumes "isZero d" and "isZero n"
  shows "toFixed 2 (numberMultiply (numberDivide n d) (Finite 100)) = ''NaN''"
proof -
  from assms zero_not_special [of d] zero_not_special [of n]
  have "numberDivide n d = NaN"
    by (simp add: numberDivide_def)
  then show ?thesis
    by (simp add: numberMultiply_def toFixed_def)
qed

lemma percentage_nonzero_by_zero:
  assumes "isZero d" and "n \<noteq> NaN" and "\<not> isZero n"
  shows "toFixed 2 (numberMultiply (numberDivide n d) (Finite 100))
           = (if isNeg n \<noteq> isNeg d then ''-Infinity'' else ''Infinity'')"
proof -
  from assms zero_not_special [of d]
  have "numberDivide n d = signedInf (isNeg n \<noteq> isNeg d)"
    by (simp add: numberDivide_def)
  then show ?thesis
    by (simp add: numberMultiply_def toFixed_def classEval)
qed

text \<open>
  C7, as amended. For every token vector of a rating label, with the numerator at index 1
  and the denominator at index 3 (read by \<^verbatim>\<open>Number\<close>, so \<open>NaN\<close> for a token that is missing
  or not numeric): ratingPercentage is \<^verbatim>\<open>toFixed(2)\<close> of the binary64 value of
  \<^verbatim>\<open>(numerator / denominator) * 100\<close>, followed by \<^verbatim>\<open>%\<close>, and ratingStars is the numerator,
  \<^verbatim>\<open>" / "\<close> and the denominator; the tokens 4.3 and 5 give \<^verbatim>\<open>86.00%\<close> and \<^verbatim>\<open>4.3 / 5\<close>; a
  denominator that is not numeric gives \<^verbatim>\<open>NaN%\<close>; a zero denominator gives \<^verbatim>\<open>NaN%\<close> when
  the numerator is zero or not numeric, and \<^verbatim>\<open>Infinity%\<close> or \<^verbatim>\<open>-Infinity%\<close> otherwise. The
  extractor has no failing path: it is a total function of the label.
\<close>

theorem rating_of_tokens:
  "(let numerator = NumberOf (elementAt toks 1);
        denominator = NumberOf (elementAt toks 3);
        r = ratingOfTokens toks
    in ratingPercentage r
         = toFixed 2 (numberMultiply (numberDivide numerator denominator) (Finite 100)) @ ''%''
       \<and> ratingStars r = numberToString numerator @ '' / '' @ numberToString denominator
       \<and> (elementAt toks 1 = Some ''4.3'' \<and> elementAt toks 3 = Some ''5''
            \<longrightarrow> ratingPercentage r = ''86.00%'' \<and> ratingStars r = ''4.3 / 5'')
       \<and> (denominator = NaN \<longrightarrow> ratingPercentage r = ''NaN%'')
       \<and> (isZero denominator \<and> (numerator = NaN \<or> isZero numerator)
            \<longrightarrow> ratingPercentage r = ''NaN%'')
       \<and> (isZero denominator \<and> numerator \<noteq> NaN \<and> \<not> isZero numerator
            \<longrightarrow> ratingPercentage r
                  = (if isNeg numerator \<noteq> isNeg denominator then ''-Infinity%'' else ''Infinity%'')))"
proof -
  define numerator where "numerator = NumberOf (elementAt toks 1)"
  define denominator where "denominator = NumberOf (elementAt toks 3)"
  have p: "ratingPercentage (ratingOfTokens toks)
             = toFixed 2 (numberMultiply (numberDivide numerator denominator) (Finite 100)) @ ''%''"
    by (simp add: ratingOfTokens_def Let_def numerator_def denominator_def)
  have s: "ratingStars (ratingOfTokens toks)
             = numberToString numerator @ '' / '' @ numberToString denominator"
    by (simp add: ratingOfTokens_def Let_def numerator_def denominator_def)
  have example: "ratingPercentage (ratingOfTokens toks) = ''86.00%''
                 \<and> ratingStars (ratingOfTokens toks) = ''4.3 / 5''"
    if "elementAt toks 1 = Some ''4.3'' \<and> elementAt toks 3 = Some ''5''"
    using that
    by (simp add: p s numerator_def denominator_def Number_4_3 Number_5 divide_4_3_by_5
        times_100 toFixed_86 toString_4_3 toString_5)
  have nan: "ratingPercentage (ratingOfTokens toks) = ''NaN%''" if "denominator = NaN"
    using that by (simp add: p percentage_NaN_denominator)
  have zz: "ratingPercentage (ratingOfTokens toks) = ''NaN%''"
    if "isZero denominator \<and> (numerator = NaN \<or> isZero numerator)"
    using that by (auto simp: p percentage_NaN_numerator percentage_zero_by_zero)
  have inf: "ratingPercentage (ratingOfTokens toks)
               = (if isNeg numerator \<noteq> isNeg denominator then ''-Infinity%'' else ''Infinity%'')"
    if "isZero denominator \<and> numerator \<noteq> NaN \<and> \<not> isZero numerator"
    using that by (simp add: p percentage_nonzero_by_zero)
  from p s example nan zz inf show ?thesis
    unfolding Let_def numerator_def denominator_def by blast
qed

lemma tokens_4_3_of_5:
  "splitOn CHR '' '' ''Average 4.3 / 5 out of 12345 total votes.''
     = [''Average'', ''4.3'', ''/'', ''5'', ''out'', ''of'', ''12345'', ''total'', ''votes.'']"
  by simp

lemma tokens_4_3_of_0:
  "splitOn CHR '' '' ''Average 4.3 / 0 out of 12345 total votes.''
     = [''Average'', ''4.3'', ''/'', ''0'', ''out'', ''of'', ''12345'', ''total'', ''votes.'']"
  by simp

lemma tokens_4_3_of_five:
  "splitOn CHR '' '' (trimString '' Average 4.3 / five out of 12345 total votes. '')
     = [''Average'', ''4.3'', ''/'', ''five'', ''out'', ''of'', ''12345'', ''total'', ''votes.'']"
  by (simp add: trimString_def isStrWhiteSpaceChar_def)

text \<open>The statement of C7 at three labels, through the extractor of \<^verbatim>\<open>search\<close> and the
  one of \<^verbatim>\<open>getMangaMeta\<close>.\<close>

theorem rating_of_tokens_witness:
  "ratingPercentage (searchRating (Some ''Average 4.3 / 5 out of 12345 total votes.'')) = ''86.00%''
   \<and> ratingStars (searchRating (Some ''Average 4.3 / 5 out of 12345 total votes.'')) = ''4.3 / 5''
   \<and> ratingPercentage (metaRating '' Average 4.3 / five out of 12345 total votes. '') = ''NaN%''
   \<and> ratingPercentage (searchRating (Some ''Average 4.3 / 0 out of 12345 total votes.''))
       = ''Infinity%''
   \<and> ratingPercentage (searchRating (Some ''Average 0 / 0 out of 0 total votes.'')) = ''NaN%''"
proof -
  let ?of5 = "[''Average'', ''4.3'', ''/'', ''5'', ''out'', ''of'', ''12345'', ''total'', ''votes.'']"
  let ?of_five = "[''Average'', ''4.3'', ''/'', ''five'', ''out'', ''of'', ''12345'', ''total'', ''votes.'']"
  let ?of0 = "[''Average'', ''4.3'', ''/'', ''0'', ''out'', ''of'', ''12345'', ''total'', ''votes.'']"
  have "elementAt ?of5 1 = Some ''4.3'' \<and> elementAt ?of5 3 = Some ''5''"
    by (simp add: elementAt_def)
  with rating_of_tokens [of ?of5]
  have a: "ratingPercentage (ratingOfTokens ?of5) = ''86.00%''
           \<and> ratingStars (ratingOfTokens ?of5) = ''4.3 / 5''"
    unfolding Let_def by blast
  have "NumberOf (elementAt ?of_five 3) = NaN"
    by (simp add: elementAt_def Number_five)
  with rating_of_tokens [of ?of_five]
  have b: "ratingPercentage (ratingOfTokens ?of_five) = ''NaN%''"
    unfolding Let_def by blast
  have n: "NumberOf (elementAt ?of0 1) = Finite (4841369599423283 / 1125899906842624)"
    and d: "NumberOf (elementAt ?of0 3) = Finite 0"
    by (simp_all add: elementAt_def Number_4_3 Number_0)
  have "isZero (NumberOf (elementAt ?of0 3)) \<and> NumberOf (elementAt ?of0 1) \<noteq> NaN
        \<and> \<not> isZero (NumberOf (elementAt ?of0 1))"
    unfolding n d by (simp add: isZero_def)
  with rating_of_tokens [of ?of0]
  have "ratingPercentage (ratingOfTokens ?of0)
          = (if isNeg (NumberOf (elementAt ?of0 1)) \<noteq> isNeg (NumberOf (elementAt ?of0 3))
             then ''-Infinity%'' else ''Infinity%'')"
    unfolding Let_def by blast
  then have c: "ratingPercentage (ratingOfTokens ?of0) = ''Infinity%''"
    unfolding n d by (simp add: isNeg_def)
  let ?zeros = "[''Average'', ''0'', ''/'', ''0'', ''out'', ''of'', ''0'', ''total'', ''votes.'']"
  have "isZero (NumberOf (elementAt ?zeros 3))
        \<and> (NumberOf (elementAt ?zeros 1) = NaN \<or> isZero (NumberOf (elementAt ?zeros 1)))"
    by (simp add: elementAt_def Number_0 isZero_def)
  with rating_of_tokens [of ?zeros]
  have z: "ratingPercentage (ratingOfTokens ?zeros) = ''NaN%''"
    unfolding Let_def by blast
  from a b c z show ?thesis
    by (simp add: searchRating_def metaRating_def tokens_4_3_of_5 tokens_4_3_of_0
        tokens_4_3_of_five)
qed

text \<open>
  C7 as the claim words it fails: with the numerator 4.3 and the denominator 0 the
  percentage is \<^verbatim>\<open>Infinity%\<close>, not \<^verbatim>\<open>NaN%\<close>.
\<close>

theorem zero_denominator_gives_Infinity:
  "ratingPercentage (searchRating (Some ''Average 4.3 / 0 out of 12345 total votes.''))
     = ''Infinity%''
   \<and> ratingPercentage (searchRating (Some ''Average 4.3 / 0 out of 12345 total votes.''))
     \<noteq> ''NaN%''"
  by (simp add: searchRating_def tokens_4_3_of_0 ratingOfTokens_def elementAt_def Let_def
      Number_4_3 Number_0 numberDivide_def numberMultiply_def toFixed_def classEval)

section \<open>Properties of the run-grouping passes\<close>

lemma authorsPass_groups:
  "fst (authorsPass memo els) =
     (if list_ex isAuthorsMarker els
      then (memo @ takeWhile (\<lambda>e. \<not> isAuthorsMarker e) els)
           # groupBySiblingMarker isAuthorsMarker (\<lambda>t. t) (tl (dropWhile (\<lambda>e. \<not> isAuthorsMarker e) els))
      else [])"
proof (induction els arbitrary: memo)
  case Nil
  show ?case by simp
next
  case (Cons t els)
  show ?case
  proof (cases "isAuthorsMarker t")
    case True
    have "fst (authorsPass [] els) = groupBySiblingMarker isAuthorsMarker (\<lambda>t. t) els"
      by (subst groupBySiblingMarker.simps) (simp add: Cons.IH)
    with True show ?thesis by (simp add: Let_def)
  next
    case False
    then show ?thesis by (simp add: Cons.IH)
  qed
qed

lemma genresPass_groups:
  "fst (genresPass memo els) =
     (if list_ex (\<lambda>a. \<not> nextIsAnchor a) els
      then (memo @ map anchorText (takeWhile (\<lambda>e. \<not> \<not> nextIsAnchor e) els))
           # groupBySiblingMarker (\<lambda>a. \<not> nextIsAnchor a) anchorText
               (tl (dropWhile (\<lambda>e. \<not> \<not> nextIsAnchor e) els))
      else [])"
proof (induction els arbitrary: memo)
  case Nil
  show ?case by simp
next
  case (Cons a els)
  show ?case
  proof (cases "nextIsAnchor a")
    case False
    have "fst (genresPass [] els) = groupBySiblingMarker (\<lambda>a. \<not> nextIsAnchor a) anchorText els"
      by (subst groupBySiblingMarker.simps) (simp add: Cons.IH)
    with False show ?thesis by (simp add: Let_def)
  next
    case True
    then show ?thesis by (simp add: Cons.IH)
  qed
qed

lemma marker_label: "isAuthorsMarker ''Authors/Artists:''"
  unfolding isAuthorsMarker_def by code_simp

lemma marker_A: "\<not> isAuthorsMarker ''A''" "\<not> isAuthorsMarker ''B''" "\<not> isAuthorsMarker ''C''" "\<not> isAuthorsMarker ''D''"
  unfolding isAuthorsMarker_def by code_simp+

lemma marker_names: "\<not> isAuthorsMarker ''Oda''" "\<not> isAuthorsMarker ''new''" "\<not> isAuthorsMarker ''Miura''"
  unfolding isAuthorsMarker_def by code_simp+

text \<open>
  The groups of a pass that finds the buffer empty. For every sibling sequence that a pass
  walks from an empty buffer, the result is the ordered sequence of the groups of non-marker
  texts between consecutive markers, for the authors pass and for the genres pass; the
  sequence A, marker, B, C, marker, D yields the groups [A] and [B, C], and the trailing D
  forms no group.
\<close>

theorem run_grouping_from_empty_buffer:
  "fst (authorsPass [] els) = groupBySiblingMarker isAuthorsMarker (\<lambda>t. t) els
   \<and> fst (genresPass [] anchors) = groupBySiblingMarker (\<lambda>a. \<not> nextIsAnchor a) anchorText anchors
   \<and> (\<not> isAuthorsMarker A \<and> \<not> isAuthorsMarker B \<and> \<not> isAuthorsMarker C \<and> \<not> isAuthorsMarker D
        \<and> isAuthorsMarker M
      \<longrightarrow> fst (authorsPass [] [A, M, B, C, M, D]) = [[A], [B, C]])"
proof (intro conjI impI)
  show "fst (authorsPass [] els) = groupBySiblingMarker isAuthorsMarker (\<lambda>t. t) els"
    by (subst groupBySiblingMarker.simps) (simp add: authorsPass_groups)
  show "fst (genresPass [] anchors) = groupBySiblingMarker (\<lambda>a. \<not> nextIsAnchor a) anchorText anchors"
    by (subst groupBySiblingMarker.simps) (simp add: genresPass_groups)
next
  assume "\<not> isAuthorsMarker A \<and> \<not> isAuthorsMarker B \<and> \<not> isAuthorsMarker C \<and> \<not> isAuthorsMarker D
        \<and> isAuthorsMarker M"
  then show "fst (authorsPass [] [A, M, B, C, M, D]) = [[A], [B, C]]"
    by (simp add: Let_def)
qed

text \<open>That statement at the walk A, label, B, C, label, D.\<close>

theorem run_grouping_from_empty_buffer_witness:
  "fst (authorsPass [] [''A'', ''Authors/Artists:'', ''B'', ''C'', ''Authors/Artists:'', ''D''])
     = [[''A''], [''B'', ''C'']]
   \<and> groupBySiblingMarker isAuthorsMarker (\<lambda>t. t)
        [''A'', ''Authors/Artists:'', ''B'', ''C'', ''Authors/Artists:'', ''D'']
     = [[''A''], [''B'', ''C'']]"
  using run_grouping_from_empty_buffer [of "[''A'', ''Authors/Artists:'', ''B'', ''C'', ''Authors/Artists:'', ''D'']"
      "[]" "''A''" "''B''" "''C''" "''D''" "''Authors/Artists:''"]
    marker_label marker_A
  by simp

text \<open>
  C1. The claim: a walk yields the groups of non-marker texts between consecutive markers,
  and the trailing buffer, which no marker ends, is discarded. The code at the walk A,
  label, B, C, label, D: the groups are [A] and [B, C], but D is not discarded; the buffer,
  which is emptied at a marker only, still holds D after the walk, and the genres pass that
  follows walks Action, Drama (the last anchor) and returns the group [D, Action], where the
  groups of its own sequence are [Action].
\<close>

theorem trailing_buffer_kept_for_next_pass:
  "fst (authorsPass [] [''A'', ''Authors/Artists:'', ''B'', ''C'', ''Authors/Artists:'', ''D''])
     = [[''A''], [''B'', ''C'']]
   \<and> snd (authorsPass [] [''A'', ''Authors/Artists:'', ''B'', ''C'', ''Authors/Artists:'', ''D'']) = [''D'']
   \<and> fst (genresPass
            (snd (authorsPass [] [''A'', ''Authors/Artists:'', ''B'', ''C'', ''Authors/Artists:'', ''D'']))
            [\<lparr>anchorText = ''Action'', nextIsAnchor = True\<rparr>,
             \<lparr>anchorText = ''Drama'', nextIsAnchor = False\<rparr>])
       = [[''D'', ''Action'']]
   \<and> groupBySiblingMarker (\<lambda>a. \<not> nextIsAnchor a) anchorText
            [\<lparr>anchorText = ''Action'', nextIsAnchor = True\<rparr>,
             \<lparr>anchorText = ''Drama'', nextIsAnchor = False\<rparr>]
       = [[''Action'']]"
  using marker_label marker_A
  by (simp add: Let_def groupBySiblingMarker.simps)

text \<open>
  C5. The claim: the buffer belongs to one grouping call; nothing collected in one call shows
  in a group of another, and every pass starts with an empty buffer. The code: the text
  \<^verbatim>\<open>new\<close>, collected by the authors pass, is in the genres of the same search; and when a
  document has no genre anchors the buffer outlives the call, so that the next search, of
  another document, returns \<^verbatim>\<open>new\<close> among the authors of its first record.
\<close>

theorem memo_leaks_between_passes_and_calls:
  "map genres (fst (searchExtract [] leftoverDocument)) = [Some [''new'', ''Action'']]
   \<and> snd (searchExtract [] noGenresDocument) = [''new'']
   \<and> map authors (fst (searchExtract (snd (searchExtract [] noGenresDocument)) berserkDocument))
       = [Some [''new'', ''Miura'']]
   \<and> map authors (fst (searchExtract [] berserkDocument)) = [Some [''Miura'']]"
  using marker_label marker_names
  by (simp add: searchExtract_def leftoverDocument_def noGenresDocument_def berserkDocument_def
      Let_def titleURL_def elementAt_def)

text \<open>
  C6. The claim: extracting twice from the same document gives the same records. The code,
  on a document without genre anchors whose author walk ends after the label: the second
  extraction finds the buffer the first one left and returns other authors.
\<close>

theorem search_twice_differs:
  "map authors (fst (searchExtract [] noGenresDocument)) = [Some [''Oda'']]
   \<and> map authors (fst (searchExtract (snd (searchExtract [] noGenresDocument)) noGenresDocument))
       = [Some [''new'', ''Oda'']]
   \<and> fst (searchExtract [] noGenresDocument)
       \<noteq> fst (searchExtract (snd (searchExtract [] noGenresDocument)) noGenresDocument)"
  using marker_label marker_names
  by (simp add: searchExtract_def noGenresDocument_def Let_def titleURL_def elementAt_def)

lemma authorsPass_ends_with_marker:
  "els \<noteq> [] \<Longrightarrow> isAuthorsMarker (last els) \<Longrightarrow> snd (authorsPass memo els) = []"
proof (induction els arbitrary: memo)
  case Nil
  then show ?case by simp
next
  case (Cons t els)
  show ?case
  proof (cases "els = []")
    case True
    with Cons.prems show ?thesis by (simp add: Let_def)
  next
    case False
    with Cons.prems have "isAuthorsMarker (last els)" by simp
    with False Cons.IH show ?thesis by (simp add: Let_def)
  qed
qed

lemma genresPass_ends_with_marker:
  "els \<noteq> [] \<Longrightarrow> \<not> nextIsAnchor (last els) \<Longrightarrow> snd (genresPass memo els) = []"
proof (induction els arbitrary: memo)
  case Nil
  then show ?case by simp
next
  case (Cons a els)
  show ?case
  proof (cases "els = []")
    case True
    with Cons.prems show ?thesis by (simp add: Let_def)
  next
    case False
    with Cons.prems have "\<not> nextIsAnchor (last els)" by simp
    with False Cons.IH show ?thesis by (simp add: Let_def)
  qed
qed

text \<open>
  Where the extraction is repeatable: for a document whose author walk and genre walk each
  are empty or end with their marker, the extraction from an empty buffer leaves the buffer
  empty, and a second extraction from the buffer it left yields the same records.
\<close>

theorem searchExtract_repeatable_when_walks_end_with_markers:
  assumes "authorSiblings doc = [] \<or> isAuthorsMarker (last (authorSiblings doc))"
    and "genreAnchors doc = [] \<or> \<not> nextIsAnchor (last (genreAnchors doc))"
  shows "snd (searchExtract [] doc) = []
         \<and> fst (searchExtract (snd (searchExtract [] doc)) doc) = fst (searchExtract [] doc)"
proof -
  have a: "snd (authorsPass [] (authorSiblings doc)) = []"
    using assms(1) authorsPass_ends_with_marker [of "authorSiblings doc" "[]"]
    by (cases "authorSiblings doc = []") auto
  have "snd (genresPass [] (genreAnchors doc)) = []"
    using assms(2) genresPass_ends_with_marker [of "genreAnchors doc" "[]"]
    by (cases "genreAnchors doc = []") auto
  with a have "snd (searchExtract [] doc) = []"
    by (simp add: searchExtract_def Let_def)
  then show ?thesis by simp
qed

text \<open>That statement at a document of one row.\<close>

theorem searchExtract_repeatable_when_walks_end_with_markers_witness:
  "snd (searchExtract [] berserkDocument) = []
   \<and> fst (searchExtract (snd (searchExtract [] berserkDocument)) berserkDocument)
       = fst (searchExtract [] berserkDocument)"
proof -
  have "isAuthorsMarker (last (authorSiblings berserkDocument))"
    using marker_label by (simp add: berserkDocument_def)
  moreover have "\<not> nextIsAnchor (last (genreAnchors berserkDocument))"
    by (simp add: berserkDocument_def)
  ultimately show ?thesis
    using searchExtract_repeatable_when_walks_end_with_markers [of berserkDocument] by blast
qed

section \<open>Properties of automateBrowser\<close>

lemma automateBrowser_close_count:
  "count_list (trace (automateBrowser options env)) Close =
     (if launch env = Done \<and> pages env = FirstPage \<and> setViewport env = Done
         \<and> evaluateOnNewDocument env = Done \<and> (\<forall>e. pageScript env \<noteq> ThrowsSync e)
      then 1 else 0)"
  by (simp add: automateBrowser_def Let_def
      split: step.splits pagesResult.splits scriptResult.splits)

lemma automateBrowser_no_gate:
  "scriptPage (automateBrowser options env) = Some p \<Longrightarrow> requestGate p = None"
  by (auto simp: automateBrowser_def Let_def newPage_def
      split: step.splits pagesResult.splits scriptResult.splits)

text \<open>
  C2. The claim: once the browser is launched, \<^verbatim>\<open>browser.close\<close> runs exactly once before
  the promise settles, also when a setup step after the launch throws. The code at that
  input: the launch succeeds, \<^verbatim>\<open>page.setViewport\<close> throws; the browser is never closed
  and the promise rejects.
\<close>

theorem automateBrowser_setViewport_throws_no_close:
  "trace (automateBrowser \<lparr>proxy = None, debug = None\<rparr>
            ((allDone ''html'')\<lparr>setViewport := Throws (External ''viewport'')\<rparr>))
     = [Launch True, Pages, SetViewport 1920 1080]
   \<and> count_list (trace (automateBrowser \<lparr>proxy = None, debug = None\<rparr>
            ((allDone ''html'')\<lparr>setViewport := Throws (External ''viewport'')\<rparr>))) Close = 0
   \<and> settles (automateBrowser \<lparr>proxy = None, debug = None\<rparr>
            ((allDone ''html'')\<lparr>setViewport := Throws (External ''viewport'')\<rparr>))
     = Inl (ErrorOf (External ''viewport''))"
  by (simp add: automateBrowser_def allDone_def Let_def)

text \<open>
  The exit paths on which the browser is closed. When the launch and the setup succeed and
  the page script returns a promise, \<^verbatim>\<open>browser.close\<close> runs exactly once, as the last call before the promise of
  automateBrowser settles, whether the promise of the script resolves or rejects; and if
  closing succeeds, automateBrowser resolves with the value of the script, or rejects with
  \<^verbatim>\<open>Error(e)\<close> for its error \<open>e\<close>.
\<close>

theorem automateBrowser_closes_once_after_page_script:
  assumes "launch env = Done" and "pages env = FirstPage" and "setViewport env = Done"
    and "evaluateOnNewDocument env = Done"
    and "pageScript env = Resolves v \<or> pageScript env = Rejects e"
  shows "count_list (trace (automateBrowser options env)) Close = 1
         \<and> last (trace (automateBrowser options env)) = Close
         \<and> (pageScript env = Resolves v \<and> close env = Done
              \<longrightarrow> settles (automateBrowser options env) = Inr v)
         \<and> (pageScript env = Rejects e \<and> close env = Done
              \<longrightarrow> settles (automateBrowser options env) = Inl (ErrorOf e))"
  using assms
  by (auto simp: automateBrowser_def Let_def split: step.splits)

text \<open>That statement for a script that resolves and for one that rejects.\<close>

theorem automateBrowser_closes_once_after_page_script_witness:
  "count_list (trace (automateBrowser \<lparr>proxy = None, debug = None\<rparr> (allDone ''html''))) Close = 1
   \<and> last (trace (automateBrowser \<lparr>proxy = None, debug = None\<rparr> (allDone ''html''))) = Close
   \<and> settles (automateBrowser \<lparr>proxy = None, debug = None\<rparr> (allDone ''html'')) = Inr ''html''
   \<and> count_list (trace (automateBrowser \<lparr>proxy = None, debug = None\<rparr>
          ((allDone ''html'')\<lparr>pageScript := Rejects (External ''timeout'')\<rparr>))) Close = 1
   \<and> settles (automateBrowser \<lparr>proxy = None, debug = None\<rparr>
          ((allDone ''html'')\<lparr>pageScript := Rejects (External ''timeout'')\<rparr>))
        = Inl (ErrorOf (External ''timeout''))"
  using automateBrowser_closes_once_after_page_script
      [of "allDone ''html''" "''html''" "External ''timeout''" "\<lparr>proxy = None, debug = None\<rparr>"]
    automateBrowser_closes_once_after_page_script
      [of "(allDone ''html'')\<lparr>pageScript := Rejects (External ''timeout'')\<rparr>" "''html''"
          "External ''timeout''" "\<lparr>proxy = None, debug = None\<rparr>"]
  by (simp add: allDone_def)

text \<open>
  C3. The claim: a policy the caller supplies is installed as a request gate before the page
  script navigates. The code at the call of getMangaMeta (policy: only documents
  unblocked): the page script receives a page with no gate, and a request for an image goes
  out.
\<close>

theorem automateBrowser_getMangaMeta_policy_not_installed:
  "\<exists>p. scriptPage (automateBrowserWithPolicy \<lparr>proxy = None, debug = None\<rparr>
             (allDone ''html'') getMangaMetaPolicy) = Some p
      \<and> requestGate p = None
      \<and> requestOutcome p \<lparr>requestUrl = ''https://v2.mangapark.net/cover.jpg'',
                           resourceType = ''image''\<rparr> = Allow"
  by (simp add: automateBrowserWithPolicy_def automateBrowser_def allDone_def Let_def
      newPage_def requestOutcome_def)

lemma hm_baidu_matches:
  "matchesDomains getPagesPolicy
     \<lparr>requestUrl = ''https://hm.baidu.com/hm.js'', resourceType = ''script''\<rparr>"
  by (simp add: matchesDomains_def getPagesPolicy_def BLOCKED_REQUESTS_def)

text \<open>
  C4. The claim: a request whose URL starts with a value of a domain rule of mode block is
  denied. The code at the call of getPages, whose policy blocks
  \<^verbatim>\<open>https://hm.baidu.com/\<close>: the request matches the rule and goes out.
\<close>

theorem automateBrowser_getPages_blocked_domain_allowed:
  "matchesDomains getPagesPolicy
     \<lparr>requestUrl = ''https://hm.baidu.com/hm.js'', resourceType = ''script''\<rparr>
   \<and> (\<exists>p. scriptPage (automateBrowserWithPolicy \<lparr>proxy = None, debug = None\<rparr>
             (allDone [''https://xcdn-222.mangapark.net/1.webp'']) getPagesPolicy) = Some p
      \<and> requestOutcome p \<lparr>requestUrl = ''https://hm.baidu.com/hm.js'',
                           resourceType = ''script''\<rparr> = Allow)"
  using hm_baidu_matches
  by (simp add: automateBrowserWithPolicy_def automateBrowser_def allDone_def Let_def
      newPage_def requestOutcome_def)

section \<open>Properties of the public operations\<close>

lemma number_not_nullish: "typeof v = ''number'' \<Longrightarrow> \<not> isNullish v"
  by (cases v) (simp_all add: typeof_def isNullish_def)

lemma searchPromise_cases:
  "searchPromise url' page memo html =
     (if typeof page \<noteq> ''number''
      then (memo, \<lparr>effects = [], channel = failure (Message ''\"page\" must be a number'') pending\<rparr>)
      else (case html of
              Inl e \<Rightarrow> (memo, \<lparr>effects = [ReadHtml url'], channel = failure (Caught e) pending\<rparr>)
            | Inr doc \<Rightarrow>
                (snd (searchExtract memo doc),
                 \<lparr>effects = [ReadHtml url'],
                  channel = success (fst (searchExtract memo doc)) pending\<rparr>)))"
proof (cases "typeof page = ''number''")
  case True
  with number_not_nullish [OF True] show ?thesis
    by (simp add: searchPromise_def Let_def split: sum.splits)
next
  case False
  then show ?thesis
    by (simp add: searchPromise_def)
qed

lemma search_cases:
  "search query filters memo html =
     (case searchUrl (case query of QueryNullish \<Rightarrow> QueryString [] | _ \<Rightarrow> query)
             (case filters of ArgObject given \<Rightarrow> given | _ \<Rightarrow> emptyOptions) of
        Inl e \<Rightarrow> (memo, Inl e)
      | Inr url' \<Rightarrow>
          (fst (searchPromise url'
                  (pageOrDefault
                     (filtersPage (case filters of ArgObject given \<Rightarrow> given | _ \<Rightarrow> emptyOptions)))
                  memo html),
           Inr (snd (searchPromise url'
                  (pageOrDefault
                     (filtersPage (case filters of ArgObject given \<Rightarrow> given | _ \<Rightarrow> emptyOptions)))
                  memo html))))"
  by (simp add: search_def Let_def split: sum.splits)

lemma toStringValue_JString: "toStringValue (JString s) = s"
  by (simp add: toStringValue_def)

lemmas uriEval =
  encodeURIComponent_def uriUnreserved_def isLeadingSurrogate_def isTrailingSurrogate_def
  utf8Octets_def percentEncoded_def hexDigit_def

text \<open>The pages 1 and 2 as they are written into a URL.\<close>

lemma round_1: "roundMagnitude False 1 = Finite 1"
  by (simp add: roundEval)

lemma round_2: "roundMagnitude False 2 = Finite 2"
  by (simp add: roundEval)

lemma round_3: "roundMagnitude False 3 = Finite 3"
  by (simp add: roundEval)

lemma shortest_1: "shortestDigits 17 (Suc 0) 1 1 = (Suc 0, Suc 0)"
  using round_1 round_2
  by (simp add: shortestDigits_numeral Let_def powInt_def)

lemma toString_1: "numberToString (Finite 1) = ''1''"
  by (simp add: numberToString_def positiveToString_def Let_def shortest_1 floorLog_def
      logUp.simps stringEval)

lemma shortest_2: "shortestDigits 17 (Suc 0) 2 1 = (2, Suc 0)"
  using round_2 round_3
  by (simp add: shortestDigits_numeral Let_def powInt_def)

lemma toString_2: "numberToString (Finite 2) = ''2''"
  by (simp add: numberToString_def positiveToString_def Let_def shortest_2 floorLog_def
      logUp.simps stringEval)

text \<open>A lone leading surrogate, \<^verbatim>\<open>'\uD800'\<close>, as the query: no URL is built, whatever the
  filters are.\<close>

lemma searchUrl_lone_surrogate:
  "searchUrl (QueryString [0xD800]) filters = Inl (URIError ''URI malformed'')"
  by (simp add: searchUrl_def queryParam_def uriEval Let_def)

text \<open>The query \<^verbatim>\<open>'Berserk'\<close> with no filter but the page.\<close>

lemma searchUrl_Berserk:
  "searchUrl (QueryString [0x42, 0x65, 0x72, 0x73, 0x65, 0x72, 0x6B])
       (emptyOptions\<lparr>filtersPage := pageFilter\<rparr>)
     = Inr (''https://v2.mangapark.net/search?q=Berserk&orderby=views_a&st-ss=0&page=''
            @ toStringValue (pageOrDefault pageFilter))"
  by (simp add: searchUrl_def queryParam_def orDefault_def mangaRatingParam_def
      includeGenres_def excludeGenres_def mangaStatus_def mangaType_def year_def order_def
      toBoolean_def enumProperty_def MangaParkOrderBy_def join_def emptyOptions_def Let_def
      uriEval
      toStringValue_JString)

lemma search_Berserk_first_page:
  "search (QueryString [0x42, 0x65, 0x72, 0x73, 0x65, 0x72, 0x6B]) ArgUndefined [] (Inr berserkDocument)
     = (snd (searchExtract [] berserkDocument),
        Inr \<lparr>effects = [ReadHtml ''https://v2.mangapark.net/search?q=Berserk&orderby=views_a&st-ss=0&page=1''],
             channel = \<lparr>callbackCalls = [Success (fst (searchExtract [] berserkDocument))],
                        promise = Some (Success (fst (searchExtract [] berserkDocument)))\<rparr>\<rparr>)"
proof -
  have "emptyOptions = emptyOptions\<lparr>filtersPage := JUndefined\<rparr>"
    by (simp add: emptyOptions_def)
  then have "searchUrl (QueryString [0x42, 0x65, 0x72, 0x73, 0x65, 0x72, 0x6B]) emptyOptions
      = Inr ''https://v2.mangapark.net/search?q=Berserk&orderby=views_a&st-ss=0&page=1''"
    using searchUrl_Berserk [of JUndefined]
    by (simp add: pageOrDefault_def toStringValue_def toString_1)
  moreover have "filtersPage emptyOptions = JUndefined"
    by (simp add: emptyOptions_def)
  ultimately show ?thesis
    by (simp add: search_cases searchPromise_cases pageOrDefault_def typeof_def success_def
        pending_def)
qed

text \<open>
  C10. In \<^verbatim>\<open>search\<close> the branch that fails with \<^verbatim>\<open>Missing argument "page" is required\<close> is
  never taken. A page that is absent is 1; no page passes the check of its type and is
  \<^verbatim>\<open>null\<close> or \<^verbatim>\<open>undefined\<close> at the check that follows; so, whatever the page and the other
  arguments, neither the callback nor the promise receives that failure, from the function
  given to \<^verbatim>\<open>new Promise\<close> and so from a call of \<^verbatim>\<open>search\<close>; and with an absent page that
  function goes on to \<^verbatim>\<open>readHtml\<close>.
\<close>

theorem search_missing_page_branch_unreachable:
  "pageOrDefault JUndefined = JNumber (Finite 1)
   \<and> \<not> (typeof (pageOrDefault pageFilter) = ''number'' \<and> isNullish (pageOrDefault pageFilter))
   \<and> Failure (Message ''Missing argument \"page\" is required'')
       \<notin> set (callbackCalls (channel (snd (searchPromise url' page memo html))))
   \<and> promise (channel (snd (searchPromise url' page memo html)))
       \<noteq> Some (Failure (Message ''Missing argument \"page\" is required''))
   \<and> \<not> (\<exists>promised. snd (search query filters memo html) = Inr promised
          \<and> (Failure (Message ''Missing argument \"page\" is required'')
                \<in> set (callbackCalls (channel promised))
              \<or> promise (channel promised)
                  = Some (Failure (Message ''Missing argument \"page\" is required''))))
   \<and> effects (snd (searchPromise url' (pageOrDefault JUndefined) memo html)) = [ReadHtml url']"
proof -
  have a: "\<not> (typeof (pageOrDefault pageFilter) = ''number'' \<and> isNullish (pageOrDefault pageFilter))"
    using number_not_nullish [of "pageOrDefault pageFilter"] by blast
  have b: "Failure (Message ''Missing argument \"page\" is required'')
             \<notin> set (callbackCalls (channel (snd (searchPromise u p m h))))
           \<and> promise (channel (snd (searchPromise u p m h)))
               \<noteq> Some (Failure (Message ''Missing argument \"page\" is required''))" for u p m h
    by (simp add: searchPromise_cases failure_def success_def pending_def split: sum.splits)
  have c: "\<not> (\<exists>promised. snd (search query filters memo html) = Inr promised
          \<and> (Failure (Message ''Missing argument \"page\" is required'')
                \<in> set (callbackCalls (channel promised))
              \<or> promise (channel promised)
                  = Some (Failure (Message ''Missing argument \"page\" is required''))))"
    using b by (auto simp: search_cases split: sum.splits)
  have d: "effects (snd (searchPromise url' (pageOrDefault JUndefined) memo html)) = [ReadHtml url']"
    by (simp add: searchPromise_cases pageOrDefault_def typeof_def split: sum.splits)
  from a b c d show ?thesis
    by (simp add: pageOrDefault_def)
qed

text \<open>
  C8. The claim: an operation whose argument fails its precondition, for \<^verbatim>\<open>search\<close> a page
  that is not a number, rejects with the failure of that validation before any activity. The
  code at \<^verbatim>\<open>search('\uD800', { page: 'two' }, callback)\<close>: lines 130 to 181 build the URL
  before the promise is created and before the page is checked; \<^verbatim>\<open>encodeURIComponent\<close>
  raises a URIError, which leaves \<^verbatim>\<open>search\<close> as an exception: no promise is returned and
  rejected, and the callback is not called. The query \<^verbatim>\<open>'Berserk'\<close> with the same filters
  gets the failure of the validation.
\<close>

theorem search_throws_before_page_validation:
  "search (QueryString [0xD800]) (ArgObject (emptyOptions\<lparr>filtersPage := JString ''two''\<rparr>)) memo html
     = (memo, Inl (URIError ''URI malformed''))
   \<and> search (QueryString [0x42, 0x65, 0x72, 0x73, 0x65, 0x72, 0x6B])
        (ArgObject (emptyOptions\<lparr>filtersPage := JString ''two''\<rparr>)) memo html
     = (memo,
        Inr \<lparr>effects = [],
             channel = \<lparr>callbackCalls = [Failure (Message ''\"page\" must be a number'')],
                        promise = Some (Failure (Message ''\"page\" must be a number''))\<rparr>\<rparr>)"
  using searchUrl_lone_surrogate [of "emptyOptions\<lparr>filtersPage := JString ''two''\<rparr>"]
    searchUrl_Berserk [of "JString ''two''"]
  by (simp add: search_cases searchPromise_cases pageOrDefault_def typeof_def failure_def
      pending_def)

text \<open>
  The validations that come first. A null or missing URL for getMangaMeta and getPages and a
  page below 1 for getLatestUpdates fail with the message of their validation, on the
  callback and on the promise, with no call to \<^verbatim>\<open>readHtml\<close> or to the browser. A page of
  \<^verbatim>\<open>search\<close> that is not a number leads to no such call either; the failure of the
  validation is what the promise delivers when the call returns one.
\<close>

theorem validation_comes_first_in_the_promise:
  "(isNullish mangaUrl \<longrightarrow>
      getMangaMeta options mangaUrl env extract =
        \<lparr>effects = [],
         channel = \<lparr>callbackCalls = [Failure (Message ''Missing argument \"url\" is required'')],
                    promise = Some (Failure (Message ''Missing argument \"url\" is required''))\<rparr>\<rparr>)
   \<and> (isNullish chapterUrl \<longrightarrow>
      getPages options chapterUrl pagesEnv =
        \<lparr>effects = [],
         channel = \<lparr>callbackCalls = [Failure (Message ''Missing argument \"url\" is required'')],
                    promise = Some (Failure (Message ''Missing argument \"url\" is required''))\<rparr>\<rparr>)
   \<and> (numberLess (toNumber latestPage) (Finite 1) \<longrightarrow>
      getLatestUpdates (ArgObject latestPage) latestHtml extractLatest =
        Inr \<lparr>effects = [],
             channel = \<lparr>callbackCalls =
                          [Failure (Message ''Argument \"page\" must be greater than or equal to 1'')],
                        promise =
                          Some (Failure (Message ''Argument \"page\" must be greater than or equal to 1''))\<rparr>\<rparr>)
   \<and> (typeof (pageOrDefault (filtersPage given)) \<noteq> ''number'' \<longrightarrow>
      fst (search query (ArgObject given) memo html) = memo
      \<and> ((\<exists>e. snd (search query (ArgObject given) memo html) = Inl e)
         \<or> snd (search query (ArgObject given) memo html) =
             Inr \<lparr>effects = [],
                  channel = \<lparr>callbackCalls = [Failure (Message ''\"page\" must be a number'')],
                             promise = Some (Failure (Message ''\"page\" must be a number''))\<rparr>\<rparr>))"
  by (simp add: getMangaMeta_def getPages_def getLatestUpdates_def search_cases
      searchPromise_cases failure_def pending_def split: sum.splits)

text \<open>That statement at a null URL, a missing URL, the page 0 and the page \<^verbatim>\<open>'two'\<close>.\<close>

theorem validation_comes_first_in_the_promise_witness:
  "getMangaMeta \<lparr>proxy = None, debug = None\<rparr> JNull (allDone ''html'') (\<lambda>h. Inr h) =
        \<lparr>effects = [],
         channel = \<lparr>callbackCalls = [Failure (Message ''Missing argument \"url\" is required'')],
                    promise = Some (Failure (Message ''Missing argument \"url\" is required''))\<rparr>\<rparr>
   \<and> getPages \<lparr>proxy = None, debug = None\<rparr> JUndefined (allDone [''1.webp'']) =
        \<lparr>effects = [],
         channel = \<lparr>callbackCalls = [Failure (Message ''Missing argument \"url\" is required'')],
                    promise = Some (Failure (Message ''Missing argument \"url\" is required''))\<rparr>\<rparr>
   \<and> getLatestUpdates (ArgObject (JNumber (Finite 0))) (Inr ''doc'') (\<lambda>d. [d]) =
        Inr \<lparr>effects = [],
             channel = \<lparr>callbackCalls =
                          [Failure (Message ''Argument \"page\" must be greater than or equal to 1'')],
                        promise =
                          Some (Failure (Message ''Argument \"page\" must be greater than or equal to 1''))\<rparr>\<rparr>
   \<and> search (QueryString [0x42, 0x65, 0x72, 0x73, 0x65, 0x72, 0x6B])
        (ArgObject (emptyOptions\<lparr>filtersPage := JString ''two''\<rparr>)) [] (Inr berserkDocument) =
        ([],
         Inr \<lparr>effects = [],
              channel = \<lparr>callbackCalls = [Failure (Message ''\"page\" must be a number'')],
                         promise = Some (Failure (Message ''\"page\" must be a number''))\<rparr>\<rparr>)"
proof -
  have "snd (search (QueryString [0x42, 0x65, 0x72, 0x73, 0x65, 0x72, 0x6B])
          (ArgObject (emptyOptions\<lparr>filtersPage := JString ''two''\<rparr>)) [] (Inr berserkDocument))
        \<noteq> Inl e" for e
    using searchUrl_Berserk [of "JString ''two''"] by (simp add: search_cases)
  then show ?thesis
    using validation_comes_first_in_the_promise [of JNull "\<lparr>proxy = None, debug = None\<rparr>"
      "allDone ''html''" "\<lambda>h. Inr h" JUndefined "allDone [''1.webp'']" "JNumber (Finite 0)"
      "Inr ''doc''" "\<lambda>d. [d]" "emptyOptions\<lparr>filtersPage := JString ''two''\<rparr>"
      "QueryString [0x42, 0x65, 0x72, 0x73, 0x65, 0x72, 0x6B]" "[]" "Inr berserkDocument"]
    by (simp add: isNullish_def typeof_def toNumber_def numberLess_def orderKey_def
        pageOrDefault_def emptyOptions_def prod_eq_iff)
qed

text \<open>
  C9. The claim: every call of an operation with a callback delivers exactly one outcome, the
  same to the callback and to the promise, never none. The code at
  \<^verbatim>\<open>getLatestUpdates(null, callback)\<close>: line 468 reads \<^verbatim>\<open>page\<close> from the options before the
  promise is created and raises a TypeError, which leaves the call as an exception; no
  promise is returned and the callback is not called. The same at
  \<^verbatim>\<open>search('\uD800', undefined, callback)\<close>, with the URIError of \<^verbatim>\<open>encodeURIComponent\<close>.
\<close>

theorem calls_that_throw_deliver_no_outcome:
  "getLatestUpdates ArgNull html extract
     = Inl (TypeError ''Cannot destructure property page of null'')
   \<and> search (QueryString [0xD800]) ArgUndefined memo searchHtml
     = (memo, Inl (URIError ''URI malformed''))"
  using searchUrl_lone_surrogate [of emptyOptions]
  by (simp add: getLatestUpdates_def search_cases)

text \<open>
  The calls that deliver one outcome. getMangaMeta and getPages always return a promise,
  and a call of \<^verbatim>\<open>search\<close> or of getLatestUpdates that returns a promise: the callback is
  called once, and the promise settles with the outcome the callback was called with.
\<close>

theorem one_outcome_when_a_promise_is_returned:
  "(\<forall>promised. snd (search query filters memo html) = Inr promised
      \<longrightarrow> (\<exists>out. callbackCalls (channel promised) = [out] \<and> promise (channel promised) = Some out))
   \<and> (\<exists>out. callbackCalls (channel (getMangaMeta options mangaUrl env extract)) = [out]
          \<and> promise (channel (getMangaMeta options mangaUrl env extract)) = Some out)
   \<and> (\<exists>out. callbackCalls (channel (getPages options chapterUrl pagesEnv)) = [out]
          \<and> promise (channel (getPages options chapterUrl pagesEnv)) = Some out)
   \<and> (\<forall>promised. getLatestUpdates latestOptions latestHtml extractLatest = Inr promised
      \<longrightarrow> (\<exists>out. callbackCalls (channel promised) = [out] \<and> promise (channel promised) = Some out))"
proof (intro conjI)
  have "\<exists>out. callbackCalls (channel (snd (searchPromise u p m h))) = [out]
          \<and> promise (channel (snd (searchPromise u p m h))) = Some out" for u p m h
    by (simp add: searchPromise_cases failure_def success_def pending_def split: sum.splits)
  then show "\<forall>promised. snd (search query filters memo html) = Inr promised
      \<longrightarrow> (\<exists>out. callbackCalls (channel promised) = [out] \<and> promise (channel promised) = Some out)"
    by (auto simp: search_cases split: sum.splits)
  show "\<exists>out. callbackCalls (channel (getMangaMeta options mangaUrl env extract)) = [out]
          \<and> promise (channel (getMangaMeta options mangaUrl env extract)) = Some out"
    by (simp add: getMangaMeta_def Let_def failure_def success_def pending_def split: sum.splits)
  show "\<exists>out. callbackCalls (channel (getPages options chapterUrl pagesEnv)) = [out]
          \<and> promise (channel (getPages options chapterUrl pagesEnv)) = Some out"
    by (simp add: getPages_def Let_def failure_def success_def pending_def split: sum.splits)
  show "\<forall>promised. getLatestUpdates latestOptions latestHtml extractLatest = Inr promised
      \<longrightarrow> (\<exists>out. callbackCalls (channel promised) = [out] \<and> promise (channel promised) = Some out)"
    by (auto simp: getLatestUpdates_def Let_def failure_def success_def pending_def
        split: sum.splits argument.splits if_splits)
qed

text \<open>That statement at the search for \<^verbatim>\<open>'Berserk'\<close> and at the latest updates of page 2.\<close>

theorem one_outcome_when_a_promise_is_returned_witness:
  "snd (search (QueryString [0x42, 0x65, 0x72, 0x73, 0x65, 0x72, 0x6B]) ArgUndefined []
          (Inr berserkDocument))
     = Inr \<lparr>effects = [ReadHtml ''https://v2.mangapark.net/search?q=Berserk&orderby=views_a&st-ss=0&page=1''],
            channel = \<lparr>callbackCalls = [Success (fst (searchExtract [] berserkDocument))],
                       promise = Some (Success (fst (searchExtract [] berserkDocument)))\<rparr>\<rparr>
   \<and> getLatestUpdates (ArgObject (JNumber (Finite 2))) (Inr ''doc'') (\<lambda>d. [d])
       = Inr \<lparr>effects = [ReadHtml ''https://v2.mangapark.net/latest/2''],
              channel = \<lparr>callbackCalls = [Success [''doc'']], promise = Some (Success [''doc''])\<rparr>\<rparr>"
  using one_outcome_when_a_promise_is_returned [of "QueryString [0x42, 0x65, 0x72, 0x73, 0x65, 0x72, 0x6B]"
      ArgUndefined "[]" "Inr berserkDocument"]
    search_Berserk_first_page
  by (simp add: getLatestUpdates_def toNumber_def numberLess_def orderKey_def toStringValue_def
      toString_2 success_def pending_def)

end
